theory Spec2Isabelle
  imports Main "HOL-Library.Word" "HOL-Library.AList"
begin

section \<open>Strings\<close>

text \<open>
  A JavaScript string is a sequence of 16-bit code units. Literals of the source are
  written with \<open>str\<close>, which maps each ASCII character to its code unit.
\<close>

type_synonym code_unit = "16 word"
type_synonym jsstring = "code_unit list"

definition str :: "string \<Rightarrow> jsstring" where
  "str s = map of_char s"

section \<open>The regular expression of \<open>parseChatProtocolUrl\<close>\<close>

text \<open>
  The source matches the URL against \<^verbatim>\<open>/^(chat\+[^\:]+):\/\/\/(.*)/\<close>. The pattern is a
  sequence of quantified character classes, some of them inside a capture group, so the
  matcher below covers exactly that fragment: a class is a literal code unit, a negated
  set, or the dot (any code unit that is not a line terminator, as the pattern has no
  \<open>s\<close> flag); a quantifier is absent, \<open>+\<close> or \<open>*\<close>, both greedy. The matcher
  backtracks as the JavaScript engine does: a quantified class first takes the longest
  run and gives code units back one at a time while the rest of the pattern fails.
  The pattern starts with \<open>^\<close> and has no \<open>m\<close> or \<open>g\<close> flag, so the only
  attempt starts at index 0; there is no \<open>$\<close>, so the match may end before the
  string does.
\<close>

datatype cls = Lit code_unit | NotIn "code_unit list" | Dot

datatype quant = One | Plus | Star

type_synonym item = "nat \<times> cls \<times> quant"

definition line_terminators :: "code_unit list" where
  "line_terminators = [0x000A, 0x000D, 0x2028, 0x2029]"

fun cls_match :: "cls \<Rightarrow> code_unit \<Rightarrow> bool" where
  "cls_match (Lit c) x = (x = c)"
| "cls_match (NotIn cs) x = (x \<notin> set cs)"
| "cls_match Dot x = (x \<notin> set line_terminators)"

fun first_success :: "('k \<Rightarrow> 'a option) \<Rightarrow> 'k list \<Rightarrow> 'a option" where
  "first_success f [] = None"
| "first_success f (k # ks) = (case f k of Some r \<Rightarrow> Some r | None \<Rightarrow> first_success f ks)"

fun repetitions :: "quant \<Rightarrow> nat \<Rightarrow> nat list" where
  "repetitions One n = (if 1 \<le> n then [1] else [])"
| "repetitions Plus n = rev [1..<Suc n]"
| "repetitions Star n = rev [0..<Suc n]"

text \<open>
  \<open>rmatch items s\<close> matches the items against a prefix of \<open>s\<close> and returns, for each
  item, its group number (0 outside every group) and the piece of \<open>s\<close> it consumed.
\<close>

fun rmatch :: "item list \<Rightarrow> jsstring \<Rightarrow> (nat \<times> jsstring) list option" where
  "rmatch [] s = Some []"
| "rmatch ((g, c, q) # items) s =
     first_success
       (\<lambda>k. case rmatch items (drop k s) of
               None \<Rightarrow> None
             | Some ps \<Rightarrow> Some ((g, take k s) # ps))
       (repetitions q (length (takeWhile (cls_match c) s)))"

definition capture :: "nat \<Rightarrow> (nat \<times> jsstring) list \<Rightarrow> jsstring" where
  "capture g ps = concat (map snd (filter (\<lambda>p. fst p = g) ps))"

definition literal :: "nat \<Rightarrow> string \<Rightarrow> item list" where
  "literal g s = map (\<lambda>c. (g, Lit c, One)) (str s)"

definition chat_regex :: "item list" where
  "chat_regex =
     literal 1 ''chat+'' @ [(1, NotIn (str '':''), Plus)] @ literal 0 '':///'' @ [(2, Dot, Star)]"

record parsed_url =
  protocol :: jsstring
  pathname :: jsstring

definition parseChatProtocolUrl :: "jsstring \<Rightarrow> parsed_url option" where
  "parseChatProtocolUrl url =
     (case rmatch chat_regex url of
        Some protocolMatch \<Rightarrow>
          Some \<lparr>protocol = capture 1 protocolMatch, pathname = capture 2 protocolMatch\<rparr>
      | None \<Rightarrow> None)"

section \<open>Data model\<close>

text \<open>
  Field names are those of the source, prefixed where two records would share a name.
  An optional field is an \<open>option\<close>; \<open>undefined\<close> and \<open>null\<close> are \<open>None\<close>.
\<close>

record author =
  author_name :: jsstring
  author_id :: jsstring

record ChatNotificationMessage =
  msg_id :: jsstring
  msg_uri :: jsstring
  msg_author :: author
  msg_content :: jsstring
  msg_timestamp :: jsstring

record Resource =
  resource_uri :: jsstring
  resource_name :: jsstring
  resource_description :: "jsstring option"

record ResourceTemplate =
  uriTemplate :: jsstring
  template_name :: jsstring
  template_description :: "jsstring option"

record schema_property =
  prop_type :: jsstring
  prop_description :: jsstring

record input_schema =
  schema_type :: jsstring
  properties :: "(jsstring \<times> schema_property) list"
  required :: "jsstring list"

record tool =
  tool_name :: jsstring
  tool_description :: jsstring
  inputSchema :: input_schema

record text_content =
  content_type :: jsstring
  item_text :: "jsstring option"

record resource_contents =
  contents_uri :: jsstring
  mimeType :: jsstring
  contents_text :: jsstring

record read_payload =
  payload_uri :: jsstring
  payload_messages :: "ChatNotificationMessage list"

record notification =
  notification_method :: jsstring
  params_content :: "ChatNotificationMessage option"

datatype jsvalue =
    JString jsstring
  | JNumber int
  | JBoolean bool
  | JNull
  | JArray "jsvalue list"
  | JObject "(jsstring \<times> jsvalue) list"

datatype js_error = Error jsstring | TypeError | ZodError

datatype request =
    ListToolsRequest
  | CallToolRequest jsstring "(jsstring \<rightharpoonup> jsvalue) option"
  | ReadResourceRequest jsstring
  | ListResourcesRequest
  | ListResourceTemplatesRequest

text \<open>
  The handlers are typed \<open>any\<close> in the source. A response is one of the result
  shapes of the five request kinds; reading the field of another shape gives
  \<open>undefined\<close>.
\<close>

datatype response =
    ToolsResult "tool list"
  | ContentResult "text_content list"
  | ContentsResult "resource_contents list"
  | ResourcesResult "Resource list"
  | ResourceTemplatesResult "ResourceTemplate list"

datatype zod_schema =
    ListToolsRequestSchema
  | CallToolRequestSchema
  | ReadResourceRequestSchema
  | ListResourcesRequestSchema
  | ListResourceTemplatesRequestSchema
  | OtherRequestSchema nat

type_synonym 'x handler = "request \<Rightarrow> 'x \<Rightarrow> js_error + response"

text \<open>
  What a function does besides returning: the calls it makes to the accessors, to a
  captured handler, to the host's notification primitives and to the console, in order.
\<close>

datatype effect =
    GetResources
  | ReadMessages jsstring
  | WriteMessage jsstring jsstring
  | RequestHandler jsstring request
  | SendResourceUpdated jsstring
  | Notification notification
  | ConsoleWarn jsstring "notification option"
  | ConsoleError jsstring js_error

type_synonym 'a io = "effect list \<times> (js_error + 'a)"

text \<open>
  The host server. Its table of handlers and its primitives belong to the SDK; the model
  keeps the table as the list of what was registered against it, and records which
  function its \<open>setRequestHandler\<close> slot currently holds. A handler installed by
  \<open>attach\<close> is a closure over the bus, named here by its request kind. The two
  notification primitives, \<open>sendResourceUpdated\<close> and \<open>notification\<close>, return
  promises that may reject (on a server that is not connected, for one); each is the
  function from its argument to the rejection, if any.
\<close>

datatype 'x installed =
    ListToolsFacade
  | CallToolFacade
  | ReadResourceFacade
  | ListResourcesFacade
  | ListResourceTemplatesFacade
  | HostHandler "'x handler"

datatype registration_entry_point = SdkSetRequestHandler | CaptureIntoRegistry

record 'x Server =
  host_handlers :: "(zod_schema \<times> 'x installed) list"
  setRequestHandler :: registration_entry_point
  sendResourceUpdated :: "jsstring \<Rightarrow> js_error option"
  server_notification :: "notification \<Rightarrow> js_error option"

record 'x MCPMessageBus =
  getResources :: "unit \<Rightarrow> js_error + Resource list option"
  readMessages :: "jsstring \<Rightarrow> js_error + ChatNotificationMessage list option"
  writeMessage :: "jsstring \<Rightarrow> jsstring \<Rightarrow> js_error + jsstring option"
  resourceTemplate :: ResourceTemplate
  requestHandlers :: "(jsstring \<times> 'x handler) list"
  server :: "'x Server option"

definition MCPMessageBus_new ::
  "(unit \<Rightarrow> js_error + Resource list option) \<Rightarrow>
   (jsstring \<Rightarrow> js_error + ChatNotificationMessage list option) \<Rightarrow>
   (jsstring \<Rightarrow> jsstring \<Rightarrow> js_error + jsstring option) \<Rightarrow>
   ResourceTemplate \<Rightarrow> 'x MCPMessageBus" where
  "MCPMessageBus_new gr rm wm rt =
     \<lparr>getResources = gr, readMessages = rm, writeMessage = wm, resourceTemplate = rt,
      requestHandlers = [], server = None\<rparr>"

section \<open>Protocol discovery\<close>

text \<open>
  \<open>resources.map\<close> with a callback that throws: the first resource whose URI does not
  parse ends the whole map with the error.
\<close>

fun map_protocols :: "Resource list \<Rightarrow> js_error + jsstring list" where
  "map_protocols [] = Inr []"
| "map_protocols (resource # resources) =
     (case parseChatProtocolUrl (resource_uri resource) of
        Some parsed \<Rightarrow>
          (case map_protocols resources of
             Inl e \<Rightarrow> Inl e
           | Inr ps \<Rightarrow> Inr (protocol parsed # ps))
      | None \<Rightarrow> Inl (Error (str ''Failed to parse resource URI: '' @ resource_uri resource)))"

text \<open>
  \<open>Array.from(new Set(xs))\<close>: a \<open>Set\<close> keeps its elements in the order of their first
  insertion, and adding an element it already holds changes nothing.
\<close>

definition Set_add :: "'a list \<Rightarrow> 'a \<Rightarrow> 'a list" where
  "Set_add s x = (if x \<in> set s then s else s @ [x])"

definition new_Set :: "'a list \<Rightarrow> 'a list" where
  "new_Set xs = foldl Set_add [] xs"

definition getProtocols :: "'x MCPMessageBus \<Rightarrow> jsstring list io" where
  "getProtocols bus =
     (case getResources bus () of
        Inl e \<Rightarrow> ([GetResources], Inl e)
      | Inr found \<Rightarrow>
          (let resources = (case found of None \<Rightarrow> [] | Some rs \<Rightarrow> rs) in
           case map_protocols resources of
             Inl e \<Rightarrow> ([GetResources], Inl e)
           | Inr allProtocols \<Rightarrow> ([GetResources], Inr (new_Set allProtocols))))"

section \<open>The installed handlers\<close>

text \<open>A template literal renders an absent value as the word \<open>undefined\<close>.\<close>

fun interpolate :: "jsstring option \<Rightarrow> jsstring" where
  "interpolate None = str ''undefined''"
| "interpolate (Some s) = s"

definition chat_tool :: "ResourceTemplate \<Rightarrow> jsstring \<Rightarrow> tool" where
  "chat_tool t p =
     \<lparr>tool_name = p,
      tool_description =
        str ''Send a message on the '' @ template_name t @ str '' protocol using the resource URI'',
      inputSchema =
        \<lparr>schema_type = str ''object'',
         properties =
           [(str ''uri'',
             \<lparr>prop_type = str ''string'',
              prop_description =
                str ''Resource URI in the format '' @ uriTemplate t @ str '' -- ''
                  @ interpolate (template_description t)\<rparr>),
            (str ''message'',
             \<lparr>prop_type = str ''string'', prop_description = str ''Message content to send''\<rparr>)],
         required = [str ''uri'', str ''message'']\<rparr>\<rparr>"

fun tools_of :: "response \<Rightarrow> tool list option" where
  "tools_of (ToolsResult ts) = Some ts"
| "tools_of _ = None"

fun resources_of :: "response \<Rightarrow> Resource list option" where
  "resources_of (ResourcesResult rs) = Some rs"
| "resources_of _ = None"

fun resourceTemplates_of :: "response \<Rightarrow> ResourceTemplate list option" where
  "resourceTemplates_of (ResourceTemplatesResult ts) = Some ts"
| "resourceTemplates_of _ = None"

text \<open>
  The registry is keyed by \<open>printZodSchema\<close> of the request schema. That function
  renders a schema through the \<open>zod-to-ts\<close> library, which is not part of the
  repository; every handler takes it as the parameter \<open>pz\<close>.
\<close>

definition list_tools_handler ::
  "(zod_schema \<Rightarrow> jsstring) \<Rightarrow> 'x MCPMessageBus \<Rightarrow> request \<Rightarrow> 'x \<Rightarrow> response io" where
  "list_tools_handler pz bus req extra =
     (case (case map_of (requestHandlers bus) (pz ListToolsRequestSchema) of
              Some requestHandler \<Rightarrow>
                ([RequestHandler (pz ListToolsRequestSchema) req], requestHandler req extra)
            | None \<Rightarrow> ([], Inr (ToolsResult []))) of
        (t1, Inl e) \<Rightarrow> (t1, Inl e)
      | (t1, Inr originalToolsResponse) \<Rightarrow>
          (case getProtocols bus of
             (t2, Inl e) \<Rightarrow> (t1 @ t2, Inl e)
           | (t2, Inr protocols) \<Rightarrow>
               (let tools = map (chat_tool (resourceTemplate bus)) protocols in
                case tools_of originalToolsResponse of
                  None \<Rightarrow> (t1 @ t2, Inl TypeError)
                | Some original \<Rightarrow> (t1 @ t2, Inr (ToolsResult (original @ tools))))))"

text \<open>
  \<open>SendChatMessageSchema.parse\<close>: an object with string fields \<open>uri\<close> and
  \<open>message\<close>; other keys are dropped; anything else throws.
\<close>

definition SendChatMessageSchema_parse ::
  "(jsstring \<rightharpoonup> jsvalue) option \<Rightarrow> js_error + jsstring \<times> jsstring" where
  "SendChatMessageSchema_parse args =
     (case args of
        None \<Rightarrow> Inl ZodError
      | Some obj \<Rightarrow>
          (case (obj (str ''uri''), obj (str ''message'')) of
             (Some (JString uri), Some (JString message)) \<Rightarrow> Inr (uri, message)
           | _ \<Rightarrow> Inl ZodError))"

definition call_tool_handler ::
  "(zod_schema \<Rightarrow> jsstring) \<Rightarrow> 'x MCPMessageBus \<Rightarrow> jsstring \<Rightarrow>
   (jsstring \<rightharpoonup> jsvalue) option \<Rightarrow> 'x \<Rightarrow> response io" where
  "call_tool_handler pz bus name args extra =
     (case getProtocols bus of
        (t, Inl e) \<Rightarrow> (t, Inl e)
      | (t, Inr protocols) \<Rightarrow>
          if name \<in> set protocols then
            (case SendChatMessageSchema_parse args of
               Inl e \<Rightarrow> (t, Inl e)
             | Inr (uri, message) \<Rightarrow>
                 (case writeMessage bus uri message of
                    Inl e \<Rightarrow> (t @ [WriteMessage uri message], Inl e)
                  | Inr summaryText \<Rightarrow>
                      (t @ [WriteMessage uri message],
                       Inr (ContentResult [\<lparr>content_type = str ''text'', item_text = summaryText\<rparr>]))))
          else
            (case map_of (requestHandlers bus) (pz CallToolRequestSchema) of
               Some requestHandler \<Rightarrow>
                 (t @ [RequestHandler (pz CallToolRequestSchema) (CallToolRequest name args)],
                  requestHandler (CallToolRequest name args) extra)
             | None \<Rightarrow> (t, Inr (ContentResult []))))"

text \<open>
  \<open>JSON.stringify(value, null, 2)\<close> is the language's serialiser; the handler takes
  it as the parameter \<open>stringify\<close>, applied to the object and the indentation. An array
  is truthy even when it is empty, so only an absent list reaches the fallback.
\<close>

definition read_resource_handler ::
  "(zod_schema \<Rightarrow> jsstring) \<Rightarrow> (read_payload \<Rightarrow> nat \<Rightarrow> jsstring) \<Rightarrow> 'x MCPMessageBus \<Rightarrow>
   jsstring \<Rightarrow> 'x \<Rightarrow> response io" where
  "read_resource_handler pz stringify bus uri extra =
     (case readMessages bus uri of
        Inl e \<Rightarrow> ([ReadMessages uri], Inl e)
      | Inr (Some messages) \<Rightarrow>
          ([ReadMessages uri],
           Inr (ContentsResult
                  [\<lparr>contents_uri = uri,
                    mimeType = str ''application/json'',
                    contents_text =
                      stringify \<lparr>payload_uri = uri, payload_messages = messages\<rparr> 2\<rparr>]))
      | Inr None \<Rightarrow>
          (case map_of (requestHandlers bus) (pz ReadResourceRequestSchema) of
             Some requestHandler \<Rightarrow>
               ([ReadMessages uri,
                 RequestHandler (pz ReadResourceRequestSchema) (ReadResourceRequest uri)],
                requestHandler (ReadResourceRequest uri) extra)
           | None \<Rightarrow> ([ReadMessages uri], Inr (ContentsResult []))))"

definition list_resources_handler ::
  "(zod_schema \<Rightarrow> jsstring) \<Rightarrow> 'x MCPMessageBus \<Rightarrow> request \<Rightarrow> 'x \<Rightarrow> response io" where
  "list_resources_handler pz bus req extra =
     (case getResources bus () of
        Inl e \<Rightarrow> ([GetResources], Inl e)
      | Inr found \<Rightarrow>
          (let localResources = (case found of None \<Rightarrow> [] | Some rs \<Rightarrow> rs) in
           case map_of (requestHandlers bus) (pz ListResourcesRequestSchema) of
             None \<Rightarrow> ([GetResources], Inr (ResourcesResult (localResources @ [])))
           | Some requestHandler \<Rightarrow>
               (case requestHandler req extra of
                  Inl e \<Rightarrow>
                    ([GetResources, RequestHandler (pz ListResourcesRequestSchema) req], Inl e)
                | Inr otherResources \<Rightarrow>
                    ([GetResources, RequestHandler (pz ListResourcesRequestSchema) req],
                     case resources_of otherResources of
                       None \<Rightarrow> Inl TypeError
                     | Some others \<Rightarrow> Inr (ResourcesResult (localResources @ others))))))"

definition list_resource_templates_handler ::
  "(zod_schema \<Rightarrow> jsstring) \<Rightarrow> 'x MCPMessageBus \<Rightarrow> request \<Rightarrow> 'x \<Rightarrow> response io" where
  "list_resource_templates_handler pz bus req extra =
     (let localResourceTemplates = [resourceTemplate bus] in
      case map_of (requestHandlers bus) (pz ListResourceTemplatesRequestSchema) of
        None \<Rightarrow> ([], Inr (ResourceTemplatesResult (localResourceTemplates @ [])))
      | Some requestHandler \<Rightarrow>
          (case requestHandler req extra of
             Inl e \<Rightarrow> ([RequestHandler (pz ListResourceTemplatesRequestSchema) req], Inl e)
           | Inr otherResourceTemplates \<Rightarrow>
               ([RequestHandler (pz ListResourceTemplatesRequestSchema) req],
                case resourceTemplates_of otherResourceTemplates of
                  None \<Rightarrow> Inl TypeError
                | Some others \<Rightarrow>
                    Inr (ResourceTemplatesResult (localResourceTemplates @ others)))))"

section \<open>Attachment and the handler registry\<close>

text \<open>
  The SDK's own registration stores the handler in the host's table. \<open>Map.set\<close>
  replaces the value of a key it already holds and appends a new key, which is
  \<open>AList.update\<close>.
\<close>

definition sdk_setRequestHandler ::
  "'x Server \<Rightarrow> zod_schema \<Rightarrow> 'x installed \<Rightarrow> 'x Server" where
  "sdk_setRequestHandler srv schema h =
     srv\<lparr>host_handlers := AList.update schema h (host_handlers srv)\<rparr>"

text \<open>
  \<open>attach\<close> registers the five handlers through the server's entry point, replaces the
  entry point and keeps the server. On a server whose entry point has been replaced
  before, the five closures would themselves be captured into a registry; that re-entrant
  case is outside the model, which gives \<open>None\<close> for it.
\<close>

definition attach :: "'x MCPMessageBus \<Rightarrow> 'x Server \<Rightarrow> 'x MCPMessageBus option" where
  "attach bus srv =
     (case setRequestHandler srv of
        CaptureIntoRegistry \<Rightarrow> None
      | SdkSetRequestHandler \<Rightarrow>
          (let s1 = sdk_setRequestHandler srv ListToolsRequestSchema ListToolsFacade;
               s2 = sdk_setRequestHandler s1 CallToolRequestSchema CallToolFacade;
               s3 = sdk_setRequestHandler s2 ReadResourceRequestSchema ReadResourceFacade;
               s4 = sdk_setRequestHandler s3 ListResourcesRequestSchema ListResourcesFacade;
               s5 = sdk_setRequestHandler s4 ListResourceTemplatesRequestSchema
                      ListResourceTemplatesFacade
           in Some (bus\<lparr>server := Some (s5\<lparr>setRequestHandler := CaptureIntoRegistry\<rparr>)\<rparr>)))"

text \<open>
  A call \<open>server.setRequestHandler(requestSchema, handler)\<close> by the embedding
  application, on the server the bus holds: it runs whatever the slot holds.
\<close>

definition server_setRequestHandler ::
  "(zod_schema \<Rightarrow> jsstring) \<Rightarrow> 'x MCPMessageBus \<Rightarrow> zod_schema \<Rightarrow> 'x handler \<Rightarrow> 'x MCPMessageBus" where
  "server_setRequestHandler pz bus requestSchema h =
     (case server bus of
        None \<Rightarrow> bus
      | Some srv \<Rightarrow>
          (case setRequestHandler srv of
             SdkSetRequestHandler \<Rightarrow>
               bus\<lparr>server := Some (sdk_setRequestHandler srv requestSchema (HostHandler h))\<rparr>
           | CaptureIntoRegistry \<Rightarrow>
               bus\<lparr>requestHandlers := AList.update (pz requestSchema) h (requestHandlers bus)\<rparr>))"

definition register_all ::
  "(zod_schema \<Rightarrow> jsstring) \<Rightarrow> 'x MCPMessageBus \<Rightarrow> (zod_schema \<times> 'x handler) list \<Rightarrow>
   'x MCPMessageBus" where
  "register_all pz bus regs = foldl (\<lambda>b (schema, h). server_setRequestHandler pz b schema h) bus regs"

section \<open>Notifications\<close>

text \<open>
  \<open>updateResource\<close> builds two asynchronous arrow functions. Each is modelled by what
  it does when it runs: its effects and, if its promise rejects, the rejection nobody
  handles. \<open>this.server!\<close> on a bus that holds no server is a \<open>TypeError\<close>.
  The first task awaits \<open>sendResourceUpdated\<close> inside \<open>try\<close>, so its rejection is
  caught and logged. The second calls \<open>notification\<close> without awaiting it and outside
  any \<open>try\<close>: the call is made, and a rejection of its promise is handled by nobody.
\<close>

definition resource_updated_task :: "'x MCPMessageBus \<Rightarrow> jsstring \<Rightarrow> effect list \<times> js_error option" where
  "resource_updated_task bus uri =
     (case server bus of
        None \<Rightarrow>
          ([ConsoleError
              (str ''Failed to send channel resource update notification for '' @ uri @ str '':'')
              TypeError], None)
      | Some srv \<Rightarrow>
          (case sendResourceUpdated srv uri of
             None \<Rightarrow> ([SendResourceUpdated uri], None)
           | Some e \<Rightarrow>
               ([SendResourceUpdated uri,
                 ConsoleError
                   (str ''Failed to send channel resource update notification for '' @ uri @ str '':'')
                   e], None)))"

definition content_updated_task ::
  "'x MCPMessageBus \<Rightarrow> jsstring \<Rightarrow> jsstring \<Rightarrow> effect list \<times> js_error option" where
  "content_updated_task bus uri ident =
     (case readMessages bus uri of
        Inl e \<Rightarrow> ([ReadMessages uri], Some e)
      | Inr messages \<Rightarrow>
          (let message = (case messages of
                            None \<Rightarrow> None
                          | Some ms \<Rightarrow> find (\<lambda>m. msg_id m = ident) ms);
               msg = \<lparr>notification_method = str ''notifications/resources/content_updated'',
                      params_content = message\<rparr>;
               logged = [ReadMessages uri,
                         ConsoleWarn (str ''sending notification 1'') None,
                         ConsoleWarn (str ''sending notification 2'') (Some msg)]
           in case server bus of
                None \<Rightarrow> (logged, Some TypeError)
              | Some srv \<Rightarrow> (logged @ [Notification msg], server_notification srv msg)))"

text \<open>
  The first arrow function is written in parentheses and never called; the second is
  called at once. The caller's promise resolves in either case, so the result is what
  the tasks that ran have done.
\<close>

definition updateResource ::
  "'x MCPMessageBus \<Rightarrow> jsstring \<Rightarrow> jsstring \<Rightarrow> effect list \<times> js_error option" where
  "updateResource bus uri ident =
     (let resource_updated = (\<lambda>_ :: unit. resource_updated_task bus uri);
          content_updated = (\<lambda>_ :: unit. content_updated_task bus uri ident)
      in content_updated ())"

section \<open>Reading an effect list\<close>

fun writes :: "effect list \<Rightarrow> (jsstring \<times> jsstring) list" where
  "writes [] = []"
| "writes (WriteMessage uri message # es) = (uri, message) # writes es"
| "writes (_ # es) = writes es"

fun delegations :: "effect list \<Rightarrow> (jsstring \<times> request) list" where
  "delegations [] = []"
| "delegations (RequestHandler k r # es) = (k, r) # delegations es"
| "delegations (_ # es) = delegations es"

fun notifications :: "effect list \<Rightarrow> notification list" where
  "notifications [] = []"
| "notifications (Notification n # es) = n # notifications es"
| "notifications (_ # es) = notifications es"

fun resource_updates :: "effect list \<Rightarrow> jsstring list" where
  "resource_updates [] = []"
| "resource_updates (SendResourceUpdated uri # es) = uri # resource_updates es"
| "resource_updates (_ # es) = resource_updates es"

section \<open>Example values\<close>

definition example_template :: ResourceTemplate where
  "example_template =
     \<lparr>uriTemplate = str ''chat+a:///{thread}'', template_name = str ''A'',
      template_description = None\<rparr>"

definition example_resource :: "jsstring \<Rightarrow> Resource" where
  "example_resource u =
     \<lparr>resource_uri = u, resource_name = str ''thread'', resource_description = None\<rparr>"

definition example_message :: "jsstring \<Rightarrow> ChatNotificationMessage" where
  "example_message i =
     \<lparr>msg_id = i, msg_uri = str ''chat+a:///x'',
      msg_author = \<lparr>author_name = str ''Ann'', author_id = str ''u1''\<rparr>,
      msg_content = str ''hello'', msg_timestamp = str ''2025-01-01T00:00:00Z''\<rparr>"

definition example_server :: "unit Server" where
  "example_server =
     \<lparr>host_handlers = [], setRequestHandler = SdkSetRequestHandler,
      sendResourceUpdated = (\<lambda>uri. None), server_notification = (\<lambda>msg. None)\<rparr>"

definition example_bus :: "Resource list option \<Rightarrow> unit MCPMessageBus" where
  "example_bus found =
     MCPMessageBus_new
       (\<lambda>u. Inr found)
       (\<lambda>uri. Inr (if uri = str ''chat+a:///x''
                    then Some [example_message (str ''m1''), example_message (str ''m2'')]
                    else None))
       (\<lambda>uri message. Inr (if message = [] then None else Some (str ''sent'')))
       example_template"

fun example_pz :: "zod_schema \<Rightarrow> jsstring" where
  "example_pz ListToolsRequestSchema = str ''tools/list''"
| "example_pz CallToolRequestSchema = str ''tools/call''"
| "example_pz ReadResourceRequestSchema = str ''resources/read''"
| "example_pz ListResourcesRequestSchema = str ''resources/list''"
| "example_pz ListResourceTemplatesRequestSchema = str ''resources/templates/list''"
| "example_pz (OtherRequestSchema n) = str ''other''"

definition example_stringify :: "read_payload \<Rightarrow> nat \<Rightarrow> jsstring" where
  "example_stringify payload indent = str ''{uri, messages}''"

definition example_handler :: "response \<Rightarrow> unit handler" where
  "example_handler r = (\<lambda>req extra. Inr r)"

definition example_tool :: tool where
  "example_tool =
     \<lparr>tool_name = str ''ping'', tool_description = str ''Ping'',
      inputSchema = \<lparr>schema_type = str ''object'', properties = [], required = []\<rparr>\<rparr>"

definition example_args :: "jsstring \<Rightarrow> jsstring \<Rightarrow> (jsstring \<rightharpoonup> jsvalue)" where
  "example_args u m = [str ''uri'' \<mapsto> JString u, str ''message'' \<mapsto> JString m]"

definition example_attached :: "Resource list option \<Rightarrow> unit MCPMessageBus" where
  "example_attached found =
     (case attach (example_bus found) example_server of
        Some bus \<Rightarrow> bus
      | None \<Rightarrow> example_bus found)"

definition example_unconnected :: "unit MCPMessageBus" where
  "example_unconnected =
     (example_bus None)
       \<lparr>server :=
          Some \<lparr>host_handlers = [], setRequestHandler = CaptureIntoRegistry,
                sendResourceUpdated = (\<lambda>uri. Some (Error (str ''Not connected''))),
                server_notification = (\<lambda>msg. Some (Error (str ''Not connected'')))\<rparr>\<rparr>"

definition example_bus_with ::
  "Resource list option \<Rightarrow> (jsstring \<times> unit handler) list \<Rightarrow> unit MCPMessageBus" where
  "example_bus_with found hs = (example_bus found)\<lparr>requestHandlers := hs\<rparr>"

definition example_pong :: response where
  "example_pong = ContentResult [\<lparr>content_type = str ''text'', item_text = Some (str ''pong'')\<rparr>]"

section \<open>The URI parser\<close>

lemma first_success_None: "(\<And>k. k \<in> set ks \<Longrightarrow> f k = None) \<Longrightarrow> first_success f ks = None"
  by (induction ks) auto

lemma rmatch_Lit:
  "rmatch ((g, Lit c, One) # items) s =
     (case s of [] \<Rightarrow> None
      | x # xs \<Rightarrow> if x = c then (case rmatch items xs of None \<Rightarrow> None | Some ps \<Rightarrow> Some ((g, [c]) # ps)) else None)"
  by (cases s) (auto split: option.splits)

lemma rmatch_literal:
  "rmatch (map (\<lambda>c. (g, Lit c, One)) cs @ items) s =
     (if take (length cs) s = cs
      then (case rmatch items (drop (length cs) s) of
              None \<Rightarrow> None
            | Some ps \<Rightarrow> Some (map (\<lambda>c. (g, [c])) cs @ ps))
      else None)"
proof (induction cs arbitrary: s)
  case Nil
  show ?case by (simp split: option.splits)
next
  case (Cons c cs)
  show ?case
  proof (cases s)
    case Nil
    then show ?thesis by (simp add: rmatch_Lit del: rmatch.simps)
  next
    case (Cons x xs)
    then show ?thesis
      using Cons.IH [of xs] by (simp add: rmatch_Lit del: rmatch.simps split: option.splits)
  qed
qed

lemma rmatch_Dot_Star:
  "rmatch [(g, Dot, Star)] s = Some [(g, takeWhile (cls_match Dot) s)]"
proof -
  have "take (length (takeWhile P s)) s = takeWhile P s" for P :: "code_unit \<Rightarrow> bool"
    by (induction s) auto
  then show ?thesis by simp
qed

lemma rmatch_Plus_then_Lit:
  assumes "c \<in> set cs"
  shows "rmatch ((g, NotIn cs, Plus) # (g', Lit c, One) # items) s =
     (if takeWhile (\<lambda>x. x \<notin> set cs) s = [] then None
      else (case rmatch ((g', Lit c, One) # items) (dropWhile (\<lambda>x. x \<notin> set cs) s) of
              None \<Rightarrow> None
            | Some ps \<Rightarrow> Some ((g, takeWhile (\<lambda>x. x \<notin> set cs) s) # ps)))"
proof -
  let ?P = "\<lambda>x. x \<notin> set cs"
  let ?n = "length (takeWhile ?P s)"
  let ?rest = "(g', Lit c, One) # items"
  let ?f = "\<lambda>k. case rmatch ?rest (drop k s) of None \<Rightarrow> None | Some ps \<Rightarrow> Some ((g, take k s) # ps)"
  have cm: "cls_match (NotIn cs) = ?P" by (rule ext) simp
  have unfold: "rmatch ((g, NotIn cs, Plus) # ?rest) s = first_success ?f (rev [1..<Suc ?n])"
    by (simp only: rmatch.simps repetitions.simps cm)
  have short: "?f k = None" if "k < ?n" for k
  proof -
    from that have "k < length s"
      using length_takeWhile_le [of ?P s] by simp
    then have d: "drop k s = s ! k # drop (Suc k) s"
      by (simp add: Cons_nth_drop_Suc)
    from that have "takeWhile ?P s ! k \<in> set (takeWhile ?P s)" by simp
    then have "?P (takeWhile ?P s ! k)" by (rule set_takeWhileD [THEN conjunct2])
    moreover have "takeWhile ?P s ! k = s ! k" using that by (rule takeWhile_nth)
    ultimately have "s ! k \<noteq> c" using assms by auto
    then show ?thesis by (simp only: d rmatch_Lit) simp
  qed
  show ?thesis
  proof (cases "?n = 0")
    case True
    then show ?thesis by (simp only: unfold) simp
  next
    case False
    then have r: "rev [1..<Suc ?n] = ?n # rev [1..<?n]" by (simp add: Suc_le_eq)
    have tl: "first_success ?f (rev [1..<?n]) = None"
    proof (rule first_success_None)
      fix k
      assume "k \<in> set (rev [1..<?n])"
      then have "k < ?n" by simp
      then show "?f k = None" by (rule short)
    qed
    have tk: "take ?n s = takeWhile ?P s" "drop ?n s = dropWhile ?P s"
      by (induction s) auto
    from False have ne: "takeWhile ?P s \<noteq> []" by simp
    show ?thesis
      by (simp only: unfold r first_success.simps tl tk ne if_False split: option.splits) simp
  qed
qed


lemma capture_literal:
  "capture g (map (\<lambda>c. (g', [c])) cs @ ps) = (if g = g' then cs else []) @ capture g ps"
  by (induction cs) (auto simp: capture_def)

lemma capture_Cons:
  "capture g ((g', p) # ps) = (if g = g' then p else []) @ capture g ps"
  by (simp add: capture_def)

lemma capture_Nil: "capture g [] = []"
  by (simp add: capture_def)

lemma str_lengths:
  "length (str ''chat+'') = 5" "length (str '':///'') = 4"
  by (simp_all add: str_def)

lemma colon_literal: "literal 0 '':///'' = (0, Lit 0x3A, One) # map (\<lambda>c. (0, Lit c, One)) (str ''///'')"
  by (simp add: literal_def str_def)

lemma colon_class: "str '':'' = [0x3A]"
  by (simp add: str_def)

lemma parseChatProtocolUrl_explicit:
  "parseChatProtocolUrl url =
     (if take 5 url = str ''chat+'' \<and> takeWhile (\<lambda>x. x \<noteq> 0x3A) (drop 5 url) \<noteq> []
         \<and> take 4 (dropWhile (\<lambda>x. x \<noteq> 0x3A) (drop 5 url)) = str '':///''
      then Some \<lparr>protocol = str ''chat+'' @ takeWhile (\<lambda>x. x \<noteq> 0x3A) (drop 5 url),
                 pathname = takeWhile (\<lambda>x. x \<notin> set line_terminators)
                              (drop 4 (dropWhile (\<lambda>x. x \<noteq> 0x3A) (drop 5 url)))\<rparr>
      else None)"
proof -
  let ?rest = "drop 5 url"
  let ?r = "dropWhile (\<lambda>x. x \<noteq> 0x3A) ?rest"
  have dot: "cls_match Dot = (\<lambda>x. x \<notin> set line_terminators)" by (rule ext) simp
  have tail: "rmatch (literal 0 '':///'' @ [(2, Dot, Star)]) s =
      (if take 4 s = str '':///''
       then Some (map (\<lambda>c. (0, [c])) (str '':///'') @ [(2, takeWhile (\<lambda>x. x \<notin> set line_terminators) (drop 4 s))])
       else None)" for s
    unfolding literal_def by (simp only: rmatch_literal rmatch_Dot_Star str_lengths dot) simp
  have mid: "rmatch ([(1, NotIn (str '':''), Plus)] @ literal 0 '':///'' @ [(2, Dot, Star)]) s =
      (if takeWhile (\<lambda>x. x \<noteq> 0x3A) s = [] then None
       else if take 4 (dropWhile (\<lambda>x. x \<noteq> 0x3A) s) = str '':///''
       then Some ((1, takeWhile (\<lambda>x. x \<noteq> 0x3A) s) # map (\<lambda>c. (0, [c])) (str '':///'')
                   @ [(2, takeWhile (\<lambda>x. x \<notin> set line_terminators) (drop 4 (dropWhile (\<lambda>x. x \<noteq> 0x3A) s)))])
       else None)" for s
  proof -
    have "rmatch ((1, NotIn [0x3A], Plus) # (0, Lit 0x3A, One) # (map (\<lambda>c. (0, Lit c, One)) (str ''///'') @ [(2, Dot, Star)])) s =
       (if takeWhile (\<lambda>x. x \<notin> set [0x3A]) s = [] then None
        else (case rmatch ((0, Lit 0x3A, One) # (map (\<lambda>c. (0, Lit c, One)) (str ''///'') @ [(2, Dot, Star)])) (dropWhile (\<lambda>x. x \<notin> set [0x3A]) s) of
              None \<Rightarrow> None
            | Some ps \<Rightarrow> Some ((1, takeWhile (\<lambda>x. x \<notin> set [0x3A]) s) # ps)))"
      by (rule rmatch_Plus_then_Lit) simp
    moreover have "(0, Lit 0x3A, One) # (map (\<lambda>c. (0, Lit c, One)) (str ''///'') @ [(2, Dot, Star)])
        = literal 0 '':///'' @ [(2, Dot, Star)]"
      by (simp add: colon_literal)
    moreover have "(\<lambda>x::code_unit. x \<notin> set [0x3A]) = (\<lambda>x. x \<noteq> 0x3A)" by (rule ext) simp
    ultimately show ?thesis
      by (simp only: colon_class append_Cons append_Nil tail) simp
  qed
  have all: "rmatch chat_regex url =
      (if take 5 url = str ''chat+'' then
         (if takeWhile (\<lambda>x. x \<noteq> 0x3A) ?rest = [] then None
          else if take 4 ?r = str '':///''
          then Some (map (\<lambda>c. (1, [c])) (str ''chat+'') @ (1, takeWhile (\<lambda>x. x \<noteq> 0x3A) ?rest) # map (\<lambda>c. (0, [c])) (str '':///'')
                   @ [(2, takeWhile (\<lambda>x. x \<notin> set line_terminators) (drop 4 ?r))])
          else None)
       else None)"
    unfolding chat_regex_def literal_def [of 1]
    by (simp only: rmatch_literal str_lengths mid) simp
  show ?thesis
    unfolding parseChatProtocolUrl_def all
    by (simp add: capture_literal capture_Cons capture_Nil)
qed

lemma parse_matching:
  assumes "p \<noteq> []" "0x3A \<notin> set p"
  shows "parseChatProtocolUrl (str ''chat+'' @ p @ str '':///'' @ rest) =
     Some \<lparr>protocol = str ''chat+'' @ p,
           pathname = takeWhile (\<lambda>x. x \<notin> set line_terminators) rest\<rparr>"
proof -
  have c: "str '':///'' @ rest = 0x3A # str ''///'' @ rest" by (simp add: str_def)
  have tw: "takeWhile (\<lambda>x. x \<noteq> 0x3A) (p @ str '':///'' @ rest) = p"
    unfolding c using assms(2) by (induction p) auto
  have dw: "dropWhile (\<lambda>x. x \<noteq> 0x3A) (p @ str '':///'' @ rest) = str '':///'' @ rest"
    unfolding c using assms(2) by (induction p) auto
  show ?thesis
    by (simp add: parseChatProtocolUrl_explicit str_lengths tw dw assms(1))
qed

lemma parse_Some_shape:
  assumes "parseChatProtocolUrl url = Some r"
  shows "\<exists>p rest. p \<noteq> [] \<and> 0x3A \<notin> set p \<and> url = str ''chat+'' @ p @ str '':///'' @ rest"
proof -
  let ?rest = "drop 5 url"
  let ?p = "takeWhile (\<lambda>x. x \<noteq> 0x3A) ?rest"
  let ?r = "dropWhile (\<lambda>x. x \<noteq> 0x3A) ?rest"
  from assms have h: "take 5 url = str ''chat+''" "?p \<noteq> []" "take 4 ?r = str '':///''"
    by (simp_all add: parseChatProtocolUrl_explicit split: if_splits)
  have "url = take 5 url @ ?rest" by simp
  also have "?rest = ?p @ ?r" by simp
  also have "?r = take 4 ?r @ drop 4 ?r" by simp
  finally have "url = str ''chat+'' @ ?p @ str '':///'' @ drop 4 ?r"
    by (simp only: h)
  moreover have "0x3A \<notin> set ?p" by (auto dest: set_takeWhileD)
  ultimately show ?thesis using h(2) by blast
qed

text \<open>
  C7, as the code has it. For every string of the form \<open>chat+\<close>, a non-empty prefix
  \<open>p\<close> without a colon, \<open>:///\<close> and a rest, the parser returns the protocol
  \<open>chat+p\<close> and, as pathname, the rest up to its first line terminator (line feed,
  carriage return, U+2028, U+2029), which is the whole rest when it holds none. The
  parser returns an absent result exactly for the strings that are not of that form.
  It is a total function of its argument alone.
\<close>

theorem parseChatProtocolUrl_contract:
  "(p \<noteq> [] \<and> 0x3A \<notin> set p \<longrightarrow>
      parseChatProtocolUrl (str ''chat+'' @ p @ str '':///'' @ rest) =
        Some \<lparr>protocol = str ''chat+'' @ p,
              pathname = takeWhile (\<lambda>x. x \<notin> set line_terminators) rest\<rparr>)
   \<and> (p \<noteq> [] \<and> 0x3A \<notin> set p \<and> set rest \<inter> set line_terminators = {} \<longrightarrow>
      parseChatProtocolUrl (str ''chat+'' @ p @ str '':///'' @ rest) =
        Some \<lparr>protocol = str ''chat+'' @ p, pathname = rest\<rparr>)
   \<and> (parseChatProtocolUrl url = None \<longleftrightarrow>
        \<not> (\<exists>p rest. p \<noteq> [] \<and> 0x3A \<notin> set p \<and> url = str ''chat+'' @ p @ str '':///'' @ rest))"
proof (intro conjI impI)
  assume "p \<noteq> [] \<and> 0x3A \<notin> set p"
  then show "parseChatProtocolUrl (str ''chat+'' @ p @ str '':///'' @ rest) =
        Some \<lparr>protocol = str ''chat+'' @ p,
              pathname = takeWhile (\<lambda>x. x \<notin> set line_terminators) rest\<rparr>"
    by (simp add: parse_matching)
next
  assume a: "p \<noteq> [] \<and> 0x3A \<notin> set p \<and> set rest \<inter> set line_terminators = {}"
  then have "takeWhile (\<lambda>x. x \<notin> set line_terminators) rest = rest"
    by (intro takeWhile_eq_all_conv [THEN iffD2]) auto
  with a show "parseChatProtocolUrl (str ''chat+'' @ p @ str '':///'' @ rest) =
        Some \<lparr>protocol = str ''chat+'' @ p, pathname = rest\<rparr>"
    by (simp add: parse_matching)
next
  show "parseChatProtocolUrl url = None \<longleftrightarrow>
        \<not> (\<exists>p rest. p \<noteq> [] \<and> 0x3A \<notin> set p \<and> url = str ''chat+'' @ p @ str '':///'' @ rest)"
  proof
    assume n: "parseChatProtocolUrl url = None"
    show "\<not> (\<exists>p rest. p \<noteq> [] \<and> 0x3A \<notin> set p \<and> url = str ''chat+'' @ p @ str '':///'' @ rest)"
    proof
      assume "\<exists>p rest. p \<noteq> [] \<and> 0x3A \<notin> set p \<and> url = str ''chat+'' @ p @ str '':///'' @ rest"
      then obtain p rest where "p \<noteq> []" "0x3A \<notin> set p" "url = str ''chat+'' @ p @ str '':///'' @ rest"
        by blast
      then have "parseChatProtocolUrl url \<noteq> None" by (simp add: parse_matching)
      with n show False by simp
    qed
  next
    assume "\<not> (\<exists>p rest. p \<noteq> [] \<and> 0x3A \<notin> set p \<and> url = str ''chat+'' @ p @ str '':///'' @ rest)"
    then show "parseChatProtocolUrl url = None"
      using parse_Some_shape [of url] by (cases "parseChatProtocolUrl url") auto
  qed
qed

theorem parseChatProtocolUrl_contract_witness:
  "parseChatProtocolUrl (str ''chat+'' @ str ''discord'' @ str '':///'' @ str ''123/456'') =
     Some \<lparr>protocol = str ''chat+'' @ str ''discord'', pathname = str ''123/456''\<rparr>
   \<and> parseChatProtocolUrl (str ''chat+'' @ str ''a'' @ str '':///'' @ (str ''x'' @ [0x0A] @ str ''y'')) =
     Some \<lparr>protocol = str ''chat+'' @ str ''a'', pathname = str ''x''\<rparr>
   \<and> parseChatProtocolUrl (str ''bad'') = None
   \<and> \<not> (\<exists>p rest. p \<noteq> [] \<and> 0x3A \<notin> set p \<and> str ''bad'' = str ''chat+'' @ p @ str '':///'' @ rest)"
proof -
  have 1: "str ''discord'' \<noteq> [] \<and> 0x3A \<notin> set (str ''discord'')
           \<and> set (str ''123/456'') \<inter> set line_terminators = {}"
    by (simp add: str_def line_terminators_def)
  have 2: "str ''a'' \<noteq> [] \<and> 0x3A \<notin> set (str ''a'')"
    by (simp add: str_def)
  have 3: "takeWhile (\<lambda>x. x \<notin> set line_terminators) (str ''x'' @ [0x0A] @ str ''y'') = str ''x''"
    by (simp add: str_def line_terminators_def)
  have 4: "parseChatProtocolUrl (str ''bad'') = None"
    by (simp add: parseChatProtocolUrl_explicit str_def)
  from 1 parseChatProtocolUrl_contract [of "str ''discord''" "str ''123/456''" "str ''bad''"]
  have a: "parseChatProtocolUrl (str ''chat+'' @ str ''discord'' @ str '':///'' @ str ''123/456'') =
     Some \<lparr>protocol = str ''chat+'' @ str ''discord'', pathname = str ''123/456''\<rparr>"
    by blast
  from 2 parseChatProtocolUrl_contract [of "str ''a''" "str ''x'' @ [0x0A] @ str ''y''" "str ''bad''"]
  have "parseChatProtocolUrl (str ''chat+'' @ str ''a'' @ str '':///'' @ (str ''x'' @ [0x0A] @ str ''y'')) =
     Some \<lparr>protocol = str ''chat+'' @ str ''a'',
           pathname = takeWhile (\<lambda>x. x \<notin> set line_terminators) (str ''x'' @ [0x0A] @ str ''y'')\<rparr>"
    by blast
  then have b: "parseChatProtocolUrl (str ''chat+'' @ str ''a'' @ str '':///'' @ (str ''x'' @ [0x0A] @ str ''y'')) =
     Some \<lparr>protocol = str ''chat+'' @ str ''a'', pathname = str ''x''\<rparr>"
    by (simp only: 3)
  from 4 parseChatProtocolUrl_contract [of "str ''a''" "str ''x''" "str ''bad''"]
  have c: "\<not> (\<exists>p rest. p \<noteq> [] \<and> 0x3A \<notin> set p \<and> str ''bad'' = str ''chat+'' @ p @ str '':///'' @ rest)"
    by blast
  from a b 4 c show ?thesis by blast
qed

text \<open>
  C7 as the specification words it fails: after \<open>chat+a:///\<close> the string goes on with
  \<open>x\<close>, a line feed and \<open>y\<close>, and the pathname returned is \<open>x\<close>, not everything after
  the triple slash.
\<close>

theorem parseChatProtocolUrl_pathname_counterexample:
  "parseChatProtocolUrl (str ''chat+a'' @ str '':///'' @ (str ''x'' @ [0x0A] @ str ''y'')) =
     Some \<lparr>protocol = str ''chat+a'', pathname = str ''x''\<rparr>
   \<and> parseChatProtocolUrl (str ''chat+a'' @ str '':///'' @ (str ''x'' @ [0x0A] @ str ''y'')) \<noteq>
     Some \<lparr>protocol = str ''chat+a'', pathname = str ''x'' @ [0x0A] @ str ''y''\<rparr>"
  by (simp add: parseChatProtocolUrl_explicit str_def line_terminators_def)

section \<open>Protocol discovery: fail-fast and deduplication\<close>

lemma set_foldl_Set_add: "set (foldl Set_add acc xs) = set acc \<union> set xs"
  by (induction xs arbitrary: acc) (auto simp: Set_add_def)

lemma distinct_foldl_Set_add: "distinct acc \<Longrightarrow> distinct (foldl Set_add acc xs)"
  by (induction xs arbitrary: acc) (auto simp: Set_add_def)

lemma set_new_Set: "set (new_Set xs) = set xs"
  by (simp add: new_Set_def set_foldl_Set_add)

lemma distinct_new_Set: "distinct (new_Set xs)"
  by (simp add: new_Set_def distinct_foldl_Set_add)

lemma map_protocols_find:
  "map_protocols resources =
     (case find (\<lambda>r. parseChatProtocolUrl (resource_uri r) = None) resources of
        Some bad \<Rightarrow> Inl (Error (str ''Failed to parse resource URI: '' @ resource_uri bad))
      | None \<Rightarrow> Inr (map (\<lambda>r. protocol (the (parseChatProtocolUrl (resource_uri r)))) resources))"
  by (induction resources) (auto split: option.splits)

lemma fst_getProtocols: "fst (getProtocols bus) = [GetResources]"
  by (simp add: getProtocols_def Let_def split: sum.splits)

lemma getProtocols_all_parse:
  assumes "getResources bus () = Inr found"
    and "\<forall>r \<in> set (case found of None \<Rightarrow> [] | Some rs \<Rightarrow> rs). parseChatProtocolUrl (resource_uri r) \<noteq> None"
  shows "snd (getProtocols bus) =
           Inr (new_Set (map (\<lambda>r. protocol (the (parseChatProtocolUrl (resource_uri r))))
                  (case found of None \<Rightarrow> [] | Some rs \<Rightarrow> rs)))"
proof -
  have "find (\<lambda>r. parseChatProtocolUrl (resource_uri r) = None) (case found of None \<Rightarrow> [] | Some rs \<Rightarrow> rs) = None"
    using assms(2) by (cases found) (auto simp: find_None_iff)
  then show ?thesis
    using assms(1) by (simp add: getProtocols_def map_protocols_find)
qed

text \<open>
  C2. When \<open>getResources\<close> returns a list in which some resource has a URI the parser
  rejects, discovery fails: the result is the error whose message names the URI of the
  first such resource of the list, and no protocol is returned for the others.
\<close>

theorem getProtocols_fail_fast:
  assumes "getResources bus () = Inr (Some resources)"
    and "r \<in> set resources" and "parseChatProtocolUrl (resource_uri r) = None"
  shows "\<exists>bad. find (\<lambda>r. parseChatProtocolUrl (resource_uri r) = None) resources = Some bad
           \<and> bad \<in> set resources \<and> parseChatProtocolUrl (resource_uri bad) = None
           \<and> snd (getProtocols bus) =
               Inl (Error (str ''Failed to parse resource URI: '' @ resource_uri bad))"
proof -
  from assms(2,3) obtain bad where
    f: "find (\<lambda>r. parseChatProtocolUrl (resource_uri r) = None) resources = Some bad"
    by (cases "find (\<lambda>r. parseChatProtocolUrl (resource_uri r) = None) resources")
       (auto simp: find_None_iff)
  then have "bad \<in> set resources" "parseChatProtocolUrl (resource_uri bad) = None"
    by (auto simp: find_Some_iff)
  moreover have "snd (getProtocols bus) =
               Inl (Error (str ''Failed to parse resource URI: '' @ resource_uri bad))"
    using assms(1) f by (simp add: getProtocols_def map_protocols_find)
  ultimately show ?thesis using f by blast
qed

lemma parse_example_x:
  "parseChatProtocolUrl (str ''chat+a:///x'') = Some \<lparr>protocol = str ''chat+a'', pathname = str ''x''\<rparr>"
  by (simp add: parseChatProtocolUrl_explicit str_def line_terminators_def)

lemma parse_example_bad: "parseChatProtocolUrl (str ''bad'') = None"
  by (simp add: parseChatProtocolUrl_explicit str_def)

theorem getProtocols_fail_fast_witness:
  "snd (getProtocols (example_bus (Some [example_resource (str ''chat+a:///x''), example_resource (str ''bad'')]))) =
     Inl (Error (str ''Failed to parse resource URI: '' @ str ''bad''))"
proof -
  let ?rs = "[example_resource (str ''chat+a:///x''), example_resource (str ''bad'')]"
  have 1: "getResources (example_bus (Some ?rs)) () = Inr (Some ?rs)"
    by (simp add: example_bus_def MCPMessageBus_new_def)
  have 2: "example_resource (str ''bad'') \<in> set ?rs" by simp
  have 3: "parseChatProtocolUrl (resource_uri (example_resource (str ''bad''))) = None"
    by (simp add: example_resource_def parse_example_bad)
  have 4: "find (\<lambda>r. parseChatProtocolUrl (resource_uri r) = None) ?rs = Some (example_resource (str ''bad''))"
    by (simp add: example_resource_def parse_example_bad parse_example_x)
  from getProtocols_fail_fast [OF 1 2 3] 4 show ?thesis
    by (auto simp: example_resource_def)
qed

text \<open>
  C8. Discovery over an absent or empty resource list gives the empty protocol list. When
  every URI of the list parses, the result has no duplicate and its elements are exactly
  the protocols of the parsed URIs. The result is a function of what \<open>getResources\<close>
  returns, and two lists with the same resources in any order give the same set of
  protocols.
\<close>

theorem getProtocols_deduplicated_image:
  "((getResources bus () = Inr None \<or> getResources bus () = Inr (Some [])) \<longrightarrow>
       snd (getProtocols bus) = Inr [])
   \<and> (getResources bus () = Inr (Some resources)
        \<and> (\<forall>r \<in> set resources. parseChatProtocolUrl (resource_uri r) \<noteq> None) \<longrightarrow>
       (\<exists>ps. snd (getProtocols bus) = Inr ps \<and> distinct ps
          \<and> set ps = (\<lambda>r. protocol (the (parseChatProtocolUrl (resource_uri r)))) ` set resources))
   \<and> (getResources bus () = getResources bus' () \<longrightarrow> getProtocols bus = getProtocols bus')
   \<and> (getResources bus () = Inr (Some resources) \<and> getResources bus' () = Inr (Some resources')
        \<and> set resources = set resources'
        \<and> (\<forall>r \<in> set resources. parseChatProtocolUrl (resource_uri r) \<noteq> None) \<longrightarrow>
       (\<exists>ps ps'. snd (getProtocols bus) = Inr ps \<and> snd (getProtocols bus') = Inr ps'
          \<and> set ps = set ps'))"
proof (intro conjI impI)
  assume "getResources bus () = Inr None \<or> getResources bus () = Inr (Some [])"
  then show "snd (getProtocols bus) = Inr []"
    by (auto simp: getProtocols_def new_Set_def)
next
  assume "getResources bus () = Inr (Some resources)
        \<and> (\<forall>r \<in> set resources. parseChatProtocolUrl (resource_uri r) \<noteq> None)"
  then have "snd (getProtocols bus) =
       Inr (new_Set (map (\<lambda>r. protocol (the (parseChatProtocolUrl (resource_uri r)))) resources))"
    using getProtocols_all_parse [of bus "Some resources"] by simp
  then show "\<exists>ps. snd (getProtocols bus) = Inr ps \<and> distinct ps
          \<and> set ps = (\<lambda>r. protocol (the (parseChatProtocolUrl (resource_uri r)))) ` set resources"
    by (simp add: distinct_new_Set set_new_Set)
next
  assume "getResources bus () = getResources bus' ()"
  then show "getProtocols bus = getProtocols bus'"
    by (simp add: getProtocols_def)
next
  assume a: "getResources bus () = Inr (Some resources) \<and> getResources bus' () = Inr (Some resources')
        \<and> set resources = set resources'
        \<and> (\<forall>r \<in> set resources. parseChatProtocolUrl (resource_uri r) \<noteq> None)"
  then have 1: "snd (getProtocols bus) =
       Inr (new_Set (map (\<lambda>r. protocol (the (parseChatProtocolUrl (resource_uri r)))) resources))"
    using getProtocols_all_parse [of bus "Some resources"] by simp
  from a have 2: "snd (getProtocols bus') =
       Inr (new_Set (map (\<lambda>r. protocol (the (parseChatProtocolUrl (resource_uri r)))) resources'))"
    using getProtocols_all_parse [of bus' "Some resources'"] by simp
  from a show "\<exists>ps ps'. snd (getProtocols bus) = Inr ps \<and> snd (getProtocols bus') = Inr ps'
          \<and> set ps = set ps'"
    by (simp add: 1 2 set_new_Set)
qed

theorem getProtocols_deduplicated_image_witness:
  "snd (getProtocols (example_bus None)) = Inr []
   \<and> (\<exists>ps. snd (getProtocols (example_bus (Some [example_resource (str ''chat+a:///x''),
                                                   example_resource (str ''chat+b:///y''),
                                                   example_resource (str ''chat+a:///x'')]))) = Inr ps
          \<and> distinct ps \<and> set ps = {str ''chat+a'', str ''chat+b''})
   \<and> (\<exists>ps ps'. snd (getProtocols (example_bus (Some [example_resource (str ''chat+a:///x''),
                                                       example_resource (str ''chat+b:///y'')]))) = Inr ps
          \<and> snd (getProtocols (example_bus (Some [example_resource (str ''chat+b:///y''),
                                                   example_resource (str ''chat+a:///x'')]))) = Inr ps'
          \<and> set ps = set ps')"
proof -
  let ?x = "example_resource (str ''chat+a:///x'')"
  let ?y = "example_resource (str ''chat+b:///y'')"
  have g: "getResources (example_bus found) () = Inr found" for found
    by (simp add: example_bus_def MCPMessageBus_new_def)
  have py: "parseChatProtocolUrl (str ''chat+b:///y'') =
      Some \<lparr>protocol = str ''chat+b'', pathname = str ''y''\<rparr>"
    by (simp add: parseChatProtocolUrl_explicit str_def line_terminators_def)
  have px: "parseChatProtocolUrl (resource_uri ?x) = Some \<lparr>protocol = str ''chat+a'', pathname = str ''x''\<rparr>"
    by (simp add: example_resource_def parse_example_x)
  have py': "parseChatProtocolUrl (resource_uri ?y) = Some \<lparr>protocol = str ''chat+b'', pathname = str ''y''\<rparr>"
    by (simp add: example_resource_def py)
  have a: "snd (getProtocols (example_bus None)) = Inr []"
    using getProtocols_deduplicated_image [of "example_bus None"] g [of None] by blast
  have "getResources (example_bus (Some [?x, ?y, ?x])) () = Inr (Some [?x, ?y, ?x])
        \<and> (\<forall>r \<in> set [?x, ?y, ?x]. parseChatProtocolUrl (resource_uri r) \<noteq> None)"
    using px py' by (simp add: g)
  with getProtocols_deduplicated_image [of "example_bus (Some [?x, ?y, ?x])" "[?x, ?y, ?x]"]
  have "\<exists>ps. snd (getProtocols (example_bus (Some [?x, ?y, ?x]))) = Inr ps \<and> distinct ps
          \<and> set ps = (\<lambda>r. protocol (the (parseChatProtocolUrl (resource_uri r)))) ` set [?x, ?y, ?x]"
    by blast
  moreover have "(\<lambda>r. protocol (the (parseChatProtocolUrl (resource_uri r)))) ` set [?x, ?y, ?x]
      = {str ''chat+a'', str ''chat+b''}"
    using px py' by auto
  ultimately have b: "\<exists>ps. snd (getProtocols (example_bus (Some [?x, ?y, ?x]))) = Inr ps \<and> distinct ps
          \<and> set ps = {str ''chat+a'', str ''chat+b''}"
    by simp
  have "getResources (example_bus (Some [?x, ?y])) () = Inr (Some [?x, ?y])
        \<and> getResources (example_bus (Some [?y, ?x])) () = Inr (Some [?y, ?x])
        \<and> set [?x, ?y] = set [?y, ?x]
        \<and> (\<forall>r \<in> set [?x, ?y]. parseChatProtocolUrl (resource_uri r) \<noteq> None)"
    using px py' by (auto simp: g)
  with getProtocols_deduplicated_image
         [of "example_bus (Some [?x, ?y])" "[?x, ?y]" "example_bus (Some [?y, ?x])" "[?y, ?x]"]
  have c: "\<exists>ps ps'. snd (getProtocols (example_bus (Some [?x, ?y]))) = Inr ps
          \<and> snd (getProtocols (example_bus (Some [?y, ?x]))) = Inr ps' \<and> set ps = set ps'"
    by blast
  from a b c show ?thesis by blast
qed

section \<open>The call-tool, list-tools and read-resource handlers\<close>

lemma getProtocols_pair: "snd (getProtocols bus) = r \<Longrightarrow> getProtocols bus = ([GetResources], r)"
  using fst_getProtocols [of bus] by (cases "getProtocols bus") simp

lemma parse_args:
  "obj (str ''uri'') = Some (JString uri) \<Longrightarrow> obj (str ''message'') = Some (JString message) \<Longrightarrow>
   SendChatMessageSchema_parse (Some obj) = Inr (uri, message)"
  by (simp add: SendChatMessageSchema_parse_def)

lemma call_tool_local:
  assumes "snd (getProtocols bus) = Inr protocols" and "name \<in> set protocols"
    and "obj (str ''uri'') = Some (JString uri)" and "obj (str ''message'') = Some (JString message)"
  shows "call_tool_handler pz bus name (Some obj) extra =
           ([GetResources, WriteMessage uri message],
            case writeMessage bus uri message of
              Inl e \<Rightarrow> Inl e
            | Inr summaryText \<Rightarrow>
                Inr (ContentResult [\<lparr>content_type = str ''text'', item_text = summaryText\<rparr>]))"
  using assms(2-4)
  by (simp add: call_tool_handler_def getProtocols_pair [OF assms(1)] parse_args split: sum.splits)

lemma call_tool_fallback:
  assumes "snd (getProtocols bus) = Inr protocols" and "name \<notin> set protocols"
  shows "call_tool_handler pz bus name args extra =
           (case map_of (requestHandlers bus) (pz CallToolRequestSchema) of
              Some h \<Rightarrow>
                ([GetResources, RequestHandler (pz CallToolRequestSchema) (CallToolRequest name args)],
                 h (CallToolRequest name args) extra)
            | None \<Rightarrow> ([GetResources], Inr (ContentResult [])))"
  using assms(2)
  by (simp add: call_tool_handler_def getProtocols_pair [OF assms(1)] split: option.splits)

text \<open>
  C3. Given that discovery succeeds: when the tool name is a discovered protocol and the
  arguments are an object with string fields \<open>uri\<close> and \<open>message\<close>, the handler
  calls \<open>writeMessage uri message\<close> exactly once, calls no captured handler, and, when
  that call returns, answers with its result as the single content item. When the name is
  not a discovered protocol, \<open>writeMessage\<close> is not called; with a captured call-tool
  handler the answer is that handler's answer to the same request, and without one it is
  the empty content list.
\<close>

theorem call_tool_handler_dispatch:
  assumes "snd (getProtocols bus) = Inr protocols"
  shows "(name \<in> set protocols \<and> args = Some obj
            \<and> obj (str ''uri'') = Some (JString uri) \<and> obj (str ''message'') = Some (JString message) \<longrightarrow>
            writes (fst (call_tool_handler pz bus name args extra)) = [(uri, message)]
          \<and> delegations (fst (call_tool_handler pz bus name args extra)) = []
          \<and> (\<forall>summaryText. writeMessage bus uri message = Inr summaryText \<longrightarrow>
                snd (call_tool_handler pz bus name args extra) =
                  Inr (ContentResult [\<lparr>content_type = str ''text'', item_text = summaryText\<rparr>])))
       \<and> (name \<notin> set protocols \<longrightarrow>
            writes (fst (call_tool_handler pz bus name args extra)) = []
          \<and> (\<forall>h. map_of (requestHandlers bus) (pz CallToolRequestSchema) = Some h \<longrightarrow>
                snd (call_tool_handler pz bus name args extra) = h (CallToolRequest name args) extra
              \<and> delegations (fst (call_tool_handler pz bus name args extra)) =
                  [(pz CallToolRequestSchema, CallToolRequest name args)])
          \<and> (map_of (requestHandlers bus) (pz CallToolRequestSchema) = None \<longrightarrow>
                call_tool_handler pz bus name args extra = ([GetResources], Inr (ContentResult []))))"
proof (intro conjI impI)
  assume a: "name \<in> set protocols \<and> args = Some obj
            \<and> obj (str ''uri'') = Some (JString uri) \<and> obj (str ''message'') = Some (JString message)"
  then have l: "call_tool_handler pz bus name args extra =
           ([GetResources, WriteMessage uri message],
            case writeMessage bus uri message of
              Inl e \<Rightarrow> Inl e
            | Inr summaryText \<Rightarrow>
                Inr (ContentResult [\<lparr>content_type = str ''text'', item_text = summaryText\<rparr>]))"
    using call_tool_local [OF assms, of name obj uri message pz extra] by simp
  show "writes (fst (call_tool_handler pz bus name args extra)) = [(uri, message)]"
    by (simp add: l)
  show "delegations (fst (call_tool_handler pz bus name args extra)) = []"
    by (simp add: l)
  show "\<forall>summaryText. writeMessage bus uri message = Inr summaryText \<longrightarrow>
                snd (call_tool_handler pz bus name args extra) =
                  Inr (ContentResult [\<lparr>content_type = str ''text'', item_text = summaryText\<rparr>])"
    by (simp add: l)
next
  assume n: "name \<notin> set protocols"
  note f = call_tool_fallback [OF assms n, of pz args extra]
  show "writes (fst (call_tool_handler pz bus name args extra)) = []"
    by (simp add: f split: option.splits)
  show "\<forall>h. map_of (requestHandlers bus) (pz CallToolRequestSchema) = Some h \<longrightarrow>
                snd (call_tool_handler pz bus name args extra) = h (CallToolRequest name args) extra
              \<and> delegations (fst (call_tool_handler pz bus name args extra)) =
                  [(pz CallToolRequestSchema, CallToolRequest name args)]"
    by (simp add: f)
  assume "map_of (requestHandlers bus) (pz CallToolRequestSchema) = None"
  then show "call_tool_handler pz bus name args extra = ([GetResources], Inr (ContentResult []))"
    by (simp add: f)
qed

text \<open>
  C10. When the tool name is a discovered protocol, the arguments have the
  \<open>{uri, message}\<close> shape and \<open>writeMessage\<close> returns an absent result, the handler
  still answers with exactly one content item of type \<open>text\<close> whose text is absent; it
  calls no captured handler and raises no error.
\<close>

theorem call_tool_handler_absent_summary:
  assumes "snd (getProtocols bus) = Inr protocols" and "name \<in> set protocols"
    and "obj (str ''uri'') = Some (JString uri)" and "obj (str ''message'') = Some (JString message)"
    and "writeMessage bus uri message = Inr None"
  shows "call_tool_handler pz bus name (Some obj) extra =
           ([GetResources, WriteMessage uri message],
            Inr (ContentResult [\<lparr>content_type = str ''text'', item_text = None\<rparr>]))
         \<and> delegations (fst (call_tool_handler pz bus name (Some obj) extra)) = []"
  using assms(5) by (simp add: call_tool_local [OF assms(1-4)])

lemma list_tools_unfold:
  assumes "snd (getProtocols bus) = Inr protocols"
  shows "list_tools_handler pz bus req extra =
     (case map_of (requestHandlers bus) (pz ListToolsRequestSchema) of
        None \<Rightarrow> ([GetResources], Inr (ToolsResult (map (chat_tool (resourceTemplate bus)) protocols)))
      | Some h \<Rightarrow>
          (case h req extra of
             Inl e \<Rightarrow> ([RequestHandler (pz ListToolsRequestSchema) req], Inl e)
           | Inr r \<Rightarrow>
               ([RequestHandler (pz ListToolsRequestSchema) req, GetResources],
                case tools_of r of
                  None \<Rightarrow> Inl TypeError
                | Some original \<Rightarrow>
                    Inr (ToolsResult (original @ map (chat_tool (resourceTemplate bus)) protocols)))))"
  by (simp add: list_tools_handler_def getProtocols_pair [OF assms] split: option.splits sum.splits)

text \<open>
  C4. Given that discovery succeeds with the list \<open>protocols\<close>, and that the captured
  list-tools handler, if there is one, answers with the tool list \<open>original\<close> (the
  empty list when there is none): the answer is \<open>original\<close> followed by one
  synthesized tool per protocol, in that order. The protocols are pairwise distinct, the
  name of each synthesized tool is its protocol, its description is built from the
  resource template's name, and its input schema requires \<open>uri\<close> and \<open>message\<close>,
  both declared as strings.
\<close>

theorem list_tools_handler_tools:
  assumes "snd (getProtocols bus) = Inr protocols"
    and "(map_of (requestHandlers bus) (pz ListToolsRequestSchema) = None \<and> original = [])
         \<or> (\<exists>h. map_of (requestHandlers bus) (pz ListToolsRequestSchema) = Some h
                \<and> h req extra = Inr (ToolsResult original))"
  shows "snd (list_tools_handler pz bus req extra) =
           Inr (ToolsResult (original @ map (chat_tool (resourceTemplate bus)) protocols))
         \<and> map tool_name (map (chat_tool (resourceTemplate bus)) protocols) = protocols
         \<and> distinct protocols
         \<and> (\<forall>p \<in> set protocols.
              tool_description (chat_tool (resourceTemplate bus) p) =
                str ''Send a message on the '' @ template_name (resourceTemplate bus)
                  @ str '' protocol using the resource URI''
            \<and> required (inputSchema (chat_tool (resourceTemplate bus) p)) = [str ''uri'', str ''message'']
            \<and> map (\<lambda>(k, v). (k, prop_type v)) (properties (inputSchema (chat_tool (resourceTemplate bus) p))) =
                [(str ''uri'', str ''string''), (str ''message'', str ''string'')])"
proof (intro conjI ballI)
  show "snd (list_tools_handler pz bus req extra) =
           Inr (ToolsResult (original @ map (chat_tool (resourceTemplate bus)) protocols))"
    using assms(2) by (auto simp: list_tools_unfold [OF assms(1)])
  show "map tool_name (map (chat_tool (resourceTemplate bus)) protocols) = protocols"
    by (induction protocols) (simp_all add: chat_tool_def)
  show "distinct protocols"
  proof -
    from assms(1) have "\<exists>xs. protocols = new_Set xs"
      by (auto simp: getProtocols_def Let_def split: sum.splits)
    then show ?thesis by (auto simp: distinct_new_Set)
  qed
qed (simp_all add: chat_tool_def)

lemma read_resource_unfold:
  "read_resource_handler pz stringify bus uri extra =
     (case readMessages bus uri of
        Inl e \<Rightarrow> ([ReadMessages uri], Inl e)
      | Inr None \<Rightarrow>
          (case map_of (requestHandlers bus) (pz ReadResourceRequestSchema) of
             Some h \<Rightarrow>
               ([ReadMessages uri, RequestHandler (pz ReadResourceRequestSchema) (ReadResourceRequest uri)],
                h (ReadResourceRequest uri) extra)
           | None \<Rightarrow> ([ReadMessages uri], Inr (ContentsResult [])))
      | Inr (Some messages) \<Rightarrow>
          ([ReadMessages uri],
           Inr (ContentsResult
                  [\<lparr>contents_uri = uri, mimeType = str ''application/json'',
                    contents_text = stringify \<lparr>payload_uri = uri, payload_messages = messages\<rparr> 2\<rparr>])))"
  by (simp add: read_resource_handler_def split: sum.splits option.splits)

text \<open>
  C5. When \<open>readMessages uri\<close> returns a list, the answer is a single content item
  with the URI, the JSON media type and the serialisation of \<open>{uri, messages}\<close> with
  that list, and no captured handler is called. When it returns an absent result, the
  answer is that of the captured read-resource handler on the same request, or the empty
  contents when no handler was captured.
\<close>

theorem read_resource_handler_dispatch:
  "(readMessages bus uri = Inr (Some messages) \<longrightarrow>
      snd (read_resource_handler pz stringify bus uri extra) =
        Inr (ContentsResult
               [\<lparr>contents_uri = uri, mimeType = str ''application/json'',
                 contents_text = stringify \<lparr>payload_uri = uri, payload_messages = messages\<rparr> 2\<rparr>])
    \<and> delegations (fst (read_resource_handler pz stringify bus uri extra)) = [])
   \<and> (readMessages bus uri = Inr None \<longrightarrow>
        (\<forall>h. map_of (requestHandlers bus) (pz ReadResourceRequestSchema) = Some h \<longrightarrow>
           snd (read_resource_handler pz stringify bus uri extra) = h (ReadResourceRequest uri) extra
         \<and> delegations (fst (read_resource_handler pz stringify bus uri extra)) =
             [(pz ReadResourceRequestSchema, ReadResourceRequest uri)])
      \<and> (map_of (requestHandlers bus) (pz ReadResourceRequestSchema) = None \<longrightarrow>
           snd (read_resource_handler pz stringify bus uri extra) = Inr (ContentsResult [])))"
  by (simp add: read_resource_unfold)

section \<open>The notification dispatcher\<close>

lemma find_in_set:
  "(\<exists>m \<in> set ms. P m) \<Longrightarrow> \<exists>m \<in> set ms. P m \<and> find P ms = Some m"
  by (induction ms) auto

lemma updateResource_unfold:
  "updateResource bus uri ident = content_updated_task bus uri ident"
  by (simp add: updateResource_def)

lemma content_updated_attached:
  assumes "server bus = Some srv" and "readMessages bus uri = Inr found"
  shows "content_updated_task bus uri ident =
     ([ReadMessages uri,
       ConsoleWarn (str ''sending notification 1'') None,
       ConsoleWarn (str ''sending notification 2'')
         (Some \<lparr>notification_method = str ''notifications/resources/content_updated'',
                params_content = (case found of None \<Rightarrow> None | Some ms \<Rightarrow> find (\<lambda>m. msg_id m = ident) ms)\<rparr>),
       Notification
         \<lparr>notification_method = str ''notifications/resources/content_updated'',
          params_content = (case found of None \<Rightarrow> None | Some ms \<Rightarrow> find (\<lambda>m. msg_id m = ident) ms)\<rparr>],
      server_notification srv
        \<lparr>notification_method = str ''notifications/resources/content_updated'',
         params_content = (case found of None \<Rightarrow> None | Some ms \<Rightarrow> find (\<lambda>m. msg_id m = ident) ms)\<rparr>)"
  using assms by (simp add: content_updated_task_def Let_def)

text \<open>
  The only rejection \<open>updateResource\<close> can leave unhandled on such a bus is that of
  the server's \<open>notification\<close> call.
\<close>

lemma updateResource_unhandled_rejection:
  assumes "server bus = Some srv" and "readMessages bus uri = Inr found"
  shows "snd (updateResource bus uri ident) =
     server_notification srv
        \<lparr>notification_method = str ''notifications/resources/content_updated'',
         params_content = (case found of None \<Rightarrow> None | Some ms \<Rightarrow> find (\<lambda>m. msg_id m = ident) ms)\<rparr>"
  by (simp add: updateResource_def content_updated_attached [OF assms])

text \<open>
  C6. On a bus that holds a server, when \<open>readMessages uri\<close> returns: if the list has
  an entry with the given id, exactly one notification is handed to the server's
  \<open>notification\<close> primitive, with the method
  \<open>notifications/resources/content_updated\<close> and the first such entry as its content;
  if the list is absent or has no such entry, the same notification is handed over with a
  null content. This holds whether or not the primitive's promise rejects.
\<close>

theorem updateResource_content_updated:
  assumes "server bus = Some srv" and "readMessages bus uri = Inr found"
  shows "(found = Some ms \<and> (\<exists>m \<in> set ms. msg_id m = ident) \<longrightarrow>
            (\<exists>m \<in> set ms. msg_id m = ident \<and> find (\<lambda>m. msg_id m = ident) ms = Some m
               \<and> notifications (fst (updateResource bus uri ident)) =
                   [\<lparr>notification_method = str ''notifications/resources/content_updated'',
                     params_content = Some m\<rparr>]))
       \<and> (found = None \<or> (found = Some ms \<and> (\<forall>m \<in> set ms. msg_id m \<noteq> ident)) \<longrightarrow>
            notifications (fst (updateResource bus uri ident)) =
              [\<lparr>notification_method = str ''notifications/resources/content_updated'',
                params_content = None\<rparr>])"
proof (intro conjI impI)
  note u = updateResource_unfold content_updated_attached [OF assms]
  {
    assume a: "found = Some ms \<and> (\<exists>m \<in> set ms. msg_id m = ident)"
    then obtain m where m: "m \<in> set ms" "msg_id m = ident" "find (\<lambda>m. msg_id m = ident) ms = Some m"
      using find_in_set [of ms "\<lambda>m. msg_id m = ident"] by blast
    with a have "notifications (fst (updateResource bus uri ident)) =
                   [\<lparr>notification_method = str ''notifications/resources/content_updated'',
                     params_content = Some m\<rparr>]"
      by (simp add: u)
    with m show "\<exists>m \<in> set ms. msg_id m = ident \<and> find (\<lambda>m. msg_id m = ident) ms = Some m
               \<and> notifications (fst (updateResource bus uri ident)) =
                   [\<lparr>notification_method = str ''notifications/resources/content_updated'',
                     params_content = Some m\<rparr>]"
      by blast
  }
  {
    assume "found = None \<or> (found = Some ms \<and> (\<forall>m \<in> set ms. msg_id m \<noteq> ident))"
    then have "(case found of None \<Rightarrow> None | Some ms \<Rightarrow> find (\<lambda>m. msg_id m = ident) ms) = None"
      by (auto simp: find_None_iff)
    then show "notifications (fst (updateResource bus uri ident)) =
              [\<lparr>notification_method = str ''notifications/resources/content_updated'',
                params_content = None\<rparr>]"
      by (simp add: u)
  }
qed

lemma updateResource_resource_updates:
  "resource_updates (fst (updateResource bus uri ident)) = []"
  by (simp add: updateResource_def content_updated_task_def Let_def split: sum.splits option.splits)

lemma attach_example:
  "example_attached found =
     (example_bus found)
       \<lparr>server := Some \<lparr>host_handlers =
                          [(ListToolsRequestSchema, ListToolsFacade),
                           (CallToolRequestSchema, CallToolFacade),
                           (ReadResourceRequestSchema, ReadResourceFacade),
                           (ListResourcesRequestSchema, ListResourcesFacade),
                           (ListResourceTemplatesRequestSchema, ListResourceTemplatesFacade)],
                        setRequestHandler = CaptureIntoRegistry,
                        sendResourceUpdated = (\<lambda>uri. None),
                        server_notification = (\<lambda>msg. None)\<rparr>\<rparr>"
  by (simp add: example_attached_def attach_def example_server_def sdk_setRequestHandler_def Let_def)

lemma example_readMessages:
  "readMessages (example_attached found) (str ''chat+a:///x'') =
     Inr (Some [example_message (str ''m1''), example_message (str ''m2'')])"
  by (simp add: attach_example example_bus_def MCPMessageBus_new_def)

lemma example_ids:
  "msg_id (example_message i) = i" "str ''m1'' \<noteq> str ''m2''" "str ''m3'' \<noteq> str ''m1''" "str ''m3'' \<noteq> str ''m2''"
  by (simp_all add: example_message_def str_def)

theorem updateResource_content_updated_witness:
  "notifications (fst (updateResource (example_attached None) (str ''chat+a:///x'') (str ''m2''))) =
     [\<lparr>notification_method = str ''notifications/resources/content_updated'',
       params_content = Some (example_message (str ''m2''))\<rparr>]
   \<and> notifications (fst (updateResource (example_attached None) (str ''chat+a:///x'') (str ''m3''))) =
     [\<lparr>notification_method = str ''notifications/resources/content_updated'',
       params_content = None\<rparr>]"
proof -
  let ?ms = "[example_message (str ''m1''), example_message (str ''m2'')]"
  have s: "server (example_attached None) = Some \<lparr>host_handlers =
                          [(ListToolsRequestSchema, ListToolsFacade),
                           (CallToolRequestSchema, CallToolFacade),
                           (ReadResourceRequestSchema, ReadResourceFacade),
                           (ListResourcesRequestSchema, ListResourcesFacade),
                           (ListResourceTemplatesRequestSchema, ListResourceTemplatesFacade)],
                        setRequestHandler = CaptureIntoRegistry,
                        sendResourceUpdated = (\<lambda>uri. None),
                        server_notification = (\<lambda>msg. None)\<rparr>"
    by (simp add: attach_example)
  note t2 = updateResource_content_updated [OF s example_readMessages, of ?ms "str ''m2''"]
  note t3 = updateResource_content_updated [OF s example_readMessages, of ?ms "str ''m3''"]
  have f: "find (\<lambda>m. msg_id m = str ''m2'') ?ms = Some (example_message (str ''m2''))"
    by (simp add: example_ids)
  have "\<exists>m \<in> set ?ms. msg_id m = str ''m2''" by (simp add: example_ids)
  with t2 f have a: "notifications (fst (updateResource (example_attached None) (str ''chat+a:///x'') (str ''m2''))) =
     [\<lparr>notification_method = str ''notifications/resources/content_updated'',
       params_content = Some (example_message (str ''m2''))\<rparr>]"
    by auto
  have "\<forall>m \<in> set ?ms. msg_id m \<noteq> str ''m3''" using example_ids by auto
  with t3 have b: "notifications (fst (updateResource (example_attached None) (str ''chat+a:///x'') (str ''m3''))) =
     [\<lparr>notification_method = str ''notifications/resources/content_updated'',
       params_content = None\<rparr>]"
    by blast
  from a b show ?thesis by blast
qed

text \<open>
  On a server that is not connected the call is still made with the same payload, and
  the rejection of its promise stays unhandled.
\<close>

lemma updateResource_unconnected_example:
  "updateResource example_unconnected (str ''chat+a:///x'') (str ''m1'') =
     ([ReadMessages (str ''chat+a:///x''),
       ConsoleWarn (str ''sending notification 1'') None,
       ConsoleWarn (str ''sending notification 2'')
         (Some \<lparr>notification_method = str ''notifications/resources/content_updated'',
                params_content = Some (example_message (str ''m1''))\<rparr>),
       Notification
         \<lparr>notification_method = str ''notifications/resources/content_updated'',
          params_content = Some (example_message (str ''m1''))\<rparr>],
      Some (Error (str ''Not connected'')))"
  by (simp add: updateResource_def content_updated_task_def example_unconnected_def
      example_bus_def MCPMessageBus_new_def example_ids Let_def)

text \<open>
  C1 does not hold of the code. On an attached bus, \<open>updateResource\<close> for the thread
  \<open>chat+a:///x\<close> and the message \<open>m1\<close> sends the content-updated notification and
  no resource-updated notification at all, although the task that \<open>updateResource\<close>
  builds for it, had it been called, would have sent one.
\<close>

theorem updateResource_skips_resource_updated:
  "resource_updates (fst (updateResource (example_attached None) (str ''chat+a:///x'') (str ''m1''))) = []
   \<and> notifications (fst (updateResource (example_attached None) (str ''chat+a:///x'') (str ''m1''))) =
       [\<lparr>notification_method = str ''notifications/resources/content_updated'',
         params_content = Some (example_message (str ''m1''))\<rparr>]
   \<and> resource_updated_task (example_attached None) (str ''chat+a:///x'') =
       ([SendResourceUpdated (str ''chat+a:///x'')], None)"
proof -
  have "content_updated_task (example_attached None) (str ''chat+a:///x'') (str ''m1'') =
     ([ReadMessages (str ''chat+a:///x''),
       ConsoleWarn (str ''sending notification 1'') None,
       ConsoleWarn (str ''sending notification 2'')
         (Some \<lparr>notification_method = str ''notifications/resources/content_updated'',
                params_content = Some (example_message (str ''m1''))\<rparr>),
       Notification
         \<lparr>notification_method = str ''notifications/resources/content_updated'',
          params_content = Some (example_message (str ''m1''))\<rparr>],
      None)"
    by (simp add: content_updated_task_def example_readMessages example_ids Let_def)
       (simp add: attach_example)
  moreover have "resource_updated_task (example_attached None) (str ''chat+a:///x'') =
       ([SendResourceUpdated (str ''chat+a:///x'')], None)"
    by (simp add: resource_updated_task_def attach_example)
  ultimately show ?thesis by (simp add: updateResource_def)
qed

section \<open>The handler registry\<close>

lemma find_append_first:
  "find P (xs @ ys) = (case find P xs of Some x \<Rightarrow> Some x | None \<Rightarrow> find P ys)"
  by (induction xs) auto

lemma distinct_foldl_update:
  "distinct (map fst al) \<Longrightarrow>
   distinct (map fst (foldl (\<lambda>al (schema, h). AList.update (pz schema) h al) al regs))"
  by (induction regs arbitrary: al) (auto simp: distinct_update)

lemma keys_foldl_update:
  "fst ` set (foldl (\<lambda>al (schema, h). AList.update (pz schema) h al) al regs) =
     fst ` set al \<union> pz ` fst ` set regs"
proof (induction regs arbitrary: al)
  case Nil
  show ?case by simp
next
  case (Cons r regs)
  obtain schema h where r: "r = (schema, h)" by (cases r)
  have "fst ` set (AList.update (pz schema) h al) = {pz schema} \<union> fst ` set al"
    by (rule dom_update)
  then show ?case
    by (simp add: Cons.IH r Un_assoc)
qed

lemma map_of_foldl_update:
  "map_of (foldl (\<lambda>al (schema, h). AList.update (pz schema) h al) al regs) k =
     (case find (\<lambda>(schema, h). pz schema = k) (rev regs) of
        Some (schema, h) \<Rightarrow> Some h
      | None \<Rightarrow> map_of al k)"
proof (induction regs arbitrary: al)
  case Nil
  show ?case by simp
next
  case (Cons r regs)
  obtain schema h where r: "r = (schema, h)" by (cases r)
  show ?case
    by (simp add: Cons.IH r find_append_first update_conv' split: option.splits)
qed

lemma capture_step:
  assumes "server b = Some s" and "setRequestHandler s = CaptureIntoRegistry"
  shows "server_setRequestHandler pz b schema h =
           b\<lparr>requestHandlers := AList.update (pz schema) h (requestHandlers b)\<rparr>"
  using assms by (simp add: server_setRequestHandler_def)

lemma register_all_captured:
  assumes "server b = Some s" and "setRequestHandler s = CaptureIntoRegistry"
  shows "register_all pz b regs =
           b\<lparr>requestHandlers :=
               foldl (\<lambda>al (schema, h). AList.update (pz schema) h al) (requestHandlers b) regs\<rparr>"
  using assms
proof (induction regs arbitrary: b)
  case Nil
  show ?case by (simp add: register_all_def)
next
  case (Cons r regs)
  obtain schema h where r: "r = (schema, h)" by (cases r)
  let ?b = "b\<lparr>requestHandlers := AList.update (pz schema) h (requestHandlers b)\<rparr>"
  have "register_all pz b (r # regs) = register_all pz ?b regs"
    by (simp add: register_all_def r capture_step [OF Cons.prems])
  moreover have "server ?b = Some s" using Cons.prems(1) by simp
  ultimately show ?case
    using Cons.IH [of ?b] Cons.prems(2) by (simp add: r)
qed

lemma attach_Some:
  assumes "attach bus0 srv = Some bus"
  shows "\<exists>s. server bus = Some s \<and> setRequestHandler s = CaptureIntoRegistry"
    and "requestHandlers bus = requestHandlers bus0"
  using assms by (auto simp: attach_def Let_def split: registration_entry_point.splits)

text \<open>
  C9. After \<open>attach\<close>, any sequence of registrations through the server's entry point
  leaves the server, and so the host's own table, as \<open>attach\<close> left it. The registry
  keeps one entry per key. Under each key it holds the handler of the last registration
  with that key, or what it held before when there was none, and its keys are the keys it
  had together with those of the registrations: none is removed.
\<close>

theorem registrations_captured:
  assumes "attach bus0 srv = Some bus" and "distinct (map fst (requestHandlers bus0))"
  shows "server (register_all pz bus regs) = server bus
       \<and> distinct (map fst (requestHandlers (register_all pz bus regs)))
       \<and> map_of (requestHandlers (register_all pz bus regs)) k =
           (case find (\<lambda>(schema, h). pz schema = k) (rev regs) of
              Some (schema, h) \<Rightarrow> Some h
            | None \<Rightarrow> map_of (requestHandlers bus0) k)
       \<and> fst ` set (requestHandlers (register_all pz bus regs)) =
           fst ` set (requestHandlers bus0) \<union> pz ` fst ` set regs"
proof -
  from attach_Some(1) [OF assms(1)] obtain s where
    s: "server bus = Some s" "setRequestHandler s = CaptureIntoRegistry" by blast
  note r = register_all_captured [OF s, of pz regs]
  note h = attach_Some(2) [OF assms(1)]
  have 1: "server (register_all pz bus regs) = server bus" by (simp add: r)
  have 2: "distinct (map fst (requestHandlers (register_all pz bus regs)))"
    using assms(2) by (simp add: r h distinct_foldl_update)
  have 3: "map_of (requestHandlers (register_all pz bus regs)) k =
           (case find (\<lambda>(schema, h). pz schema = k) (rev regs) of
              Some (schema, h) \<Rightarrow> Some h
            | None \<Rightarrow> map_of (requestHandlers bus0) k)"
    by (simp add: r h map_of_foldl_update)
  have 4: "fst ` set (requestHandlers (register_all pz bus regs)) =
           fst ` set (requestHandlers bus0) \<union> pz ` fst ` set regs"
    by (simp add: r h keys_foldl_update)
  from 1 2 3 4 show ?thesis by blast
qed

lemma attach_example_Some:
  "attach (example_bus found) example_server = Some (example_attached found)"
  by (simp add: example_attached_def attach_def example_server_def)

lemma example_no_handlers: "requestHandlers (example_bus found) = []"
  by (simp add: example_bus_def MCPMessageBus_new_def)

theorem registrations_captured_witness:
  "server (register_all example_pz (example_attached None)
             [(OtherRequestSchema 0, example_handler example_pong),
              (CallToolRequestSchema, example_handler example_pong),
              (OtherRequestSchema 1, example_handler (ToolsResult []))]) = server (example_attached None)
   \<and> distinct (map fst (requestHandlers (register_all example_pz (example_attached None)
             [(OtherRequestSchema 0, example_handler example_pong),
              (CallToolRequestSchema, example_handler example_pong),
              (OtherRequestSchema 1, example_handler (ToolsResult []))])))
   \<and> map_of (requestHandlers (register_all example_pz (example_attached None)
             [(OtherRequestSchema 0, example_handler example_pong),
              (CallToolRequestSchema, example_handler example_pong),
              (OtherRequestSchema 1, example_handler (ToolsResult []))])) (str ''other'') =
       Some (example_handler (ToolsResult []))
   \<and> fst ` set (requestHandlers (register_all example_pz (example_attached None)
             [(OtherRequestSchema 0, example_handler example_pong),
              (CallToolRequestSchema, example_handler example_pong),
              (OtherRequestSchema 1, example_handler (ToolsResult []))])) =
       {str ''other'', str ''tools/call''}"
proof -
  have d: "distinct (map fst (requestHandlers (example_bus None :: unit MCPMessageBus)))"
    by (simp add: example_no_handlers)
  have f: "find (\<lambda>(schema, h). example_pz schema = str ''other'')
             (rev [(OtherRequestSchema 0, example_handler example_pong),
                   (CallToolRequestSchema, example_handler example_pong),
                   (OtherRequestSchema 1, example_handler (ToolsResult []))]) =
           Some (OtherRequestSchema 1, example_handler (ToolsResult []))"
    by simp
  show ?thesis
    using registrations_captured [OF attach_example_Some d, of example_pz
             "[(OtherRequestSchema 0, example_handler example_pong),
              (CallToolRequestSchema, example_handler example_pong),
              (OtherRequestSchema 1, example_handler (ToolsResult []))]" "str ''other''"]
    by (simp only: f option.case prod.case example_no_handlers) auto
qed

section \<open>The handlers on the example values\<close>

lemma example_protocols:
  "snd (getProtocols (example_bus_with (Some [example_resource (str ''chat+a:///x'')]) hs)) =
     Inr [str ''chat+a'']"
  by (simp add: getProtocols_def example_bus_with_def example_bus_def MCPMessageBus_new_def
      example_resource_def parse_example_x new_Set_def Set_add_def)

lemma example_args_fields:
  "example_args u m (str ''uri'') = Some (JString u)"
  "example_args u m (str ''message'') = Some (JString m)"
  by (simp_all add: example_args_def str_def)

lemma example_writeMessage:
  "writeMessage (example_bus_with found hs) u m = Inr (if m = [] then None else Some (str ''sent''))"
  by (simp add: example_bus_with_def example_bus_def MCPMessageBus_new_def)

lemma example_handlers: "requestHandlers (example_bus_with found hs) = hs"
  by (simp add: example_bus_with_def)

theorem call_tool_handler_dispatch_witness:
  "writes (fst (call_tool_handler example_pz
             (example_bus_with (Some [example_resource (str ''chat+a:///x'')]) [])
             (str ''chat+a'') (Some (example_args (str ''chat+a:///x'') (str ''hi''))) ())) =
     [(str ''chat+a:///x'', str ''hi'')]
   \<and> snd (call_tool_handler example_pz
             (example_bus_with (Some [example_resource (str ''chat+a:///x'')]) [])
             (str ''chat+a'') (Some (example_args (str ''chat+a:///x'') (str ''hi''))) ()) =
     Inr (ContentResult [\<lparr>content_type = str ''text'', item_text = Some (str ''sent'')\<rparr>])
   \<and> call_tool_handler example_pz
             (example_bus_with (Some [example_resource (str ''chat+a:///x'')]) [])
             (str ''ping'') None () =
     ([GetResources], Inr (ContentResult []))
   \<and> snd (call_tool_handler example_pz
             (example_bus_with (Some [example_resource (str ''chat+a:///x'')])
                [(str ''tools/call'', example_handler example_pong)])
             (str ''ping'') None ()) =
     Inr example_pong"
proof -
  let ?found = "Some [example_resource (str ''chat+a:///x'')]"
  let ?u = "str ''chat+a:///x''"
  let ?m = "str ''hi''"
  have name: "str ''chat+a'' \<in> set [str ''chat+a'']" "str ''ping'' \<notin> set [str ''chat+a'']"
    by (simp_all add: str_def)
  have w: "writeMessage (example_bus_with ?found []) ?u ?m = Inr (Some (str ''sent''))"
    by (simp add: example_writeMessage str_def)
  note local = call_tool_handler_dispatch [OF example_protocols [of "[]"],
      of "str ''chat+a''" "Some (example_args ?u ?m)" "example_args ?u ?m" ?u ?m example_pz "()"]
  from local name(1) w have a:
    "writes (fst (call_tool_handler example_pz (example_bus_with ?found [])
             (str ''chat+a'') (Some (example_args ?u ?m)) ())) = [(?u, ?m)]
     \<and> snd (call_tool_handler example_pz (example_bus_with ?found [])
             (str ''chat+a'') (Some (example_args ?u ?m)) ()) =
       Inr (ContentResult [\<lparr>content_type = str ''text'', item_text = Some (str ''sent'')\<rparr>])"
    by (simp add: example_args_fields)
  note none = call_tool_handler_dispatch [OF example_protocols [of "[]"],
      of "str ''ping''" None "example_args ?u ?m" ?u ?m example_pz "()"]
  from none name(2) have b:
    "call_tool_handler example_pz (example_bus_with ?found []) (str ''ping'') None () =
     ([GetResources], Inr (ContentResult []))"
    by (simp add: example_handlers)
  note fb = call_tool_handler_dispatch
      [OF example_protocols [of "[(str ''tools/call'', example_handler example_pong)]"],
      of "str ''ping''" None "example_args ?u ?m" ?u ?m example_pz "()"]
  from fb name(2) have c:
    "snd (call_tool_handler example_pz
             (example_bus_with ?found [(str ''tools/call'', example_handler example_pong)])
             (str ''ping'') None ()) = Inr example_pong"
    by (simp add: example_handlers example_handler_def)
  from a b c show ?thesis by blast
qed

theorem call_tool_handler_absent_summary_witness:
  "call_tool_handler example_pz
     (example_bus_with (Some [example_resource (str ''chat+a:///x'')])
        [(str ''tools/call'', example_handler example_pong)])
     (str ''chat+a'') (Some (example_args (str ''chat+a:///x'') [])) () =
   ([GetResources, WriteMessage (str ''chat+a:///x'') []],
    Inr (ContentResult [\<lparr>content_type = str ''text'', item_text = None\<rparr>]))"
proof -
  have name: "str ''chat+a'' \<in> set [str ''chat+a'']" by simp
  have w: "writeMessage (example_bus_with (Some [example_resource (str ''chat+a:///x'')])
        [(str ''tools/call'', example_handler example_pong)]) (str ''chat+a:///x'') [] = Inr None"
    by (simp add: example_writeMessage)
  from call_tool_handler_absent_summary
         [OF example_protocols name example_args_fields(1) example_args_fields(2) w]
  show ?thesis by blast
qed

theorem list_tools_handler_tools_witness:
  "snd (list_tools_handler example_pz
          (example_bus_with (Some [example_resource (str ''chat+a:///x'')]) [])
          ListToolsRequest ()) =
     Inr (ToolsResult [chat_tool example_template (str ''chat+a'')])
   \<and> snd (list_tools_handler example_pz
          (example_bus_with (Some [example_resource (str ''chat+a:///x'')])
             [(str ''tools/list'', example_handler (ToolsResult [example_tool]))])
          ListToolsRequest ()) =
     Inr (ToolsResult [example_tool, chat_tool example_template (str ''chat+a'')])
   \<and> tool_name (chat_tool example_template (str ''chat+a'')) = str ''chat+a''
   \<and> tool_description (chat_tool example_template (str ''chat+a'')) =
       str ''Send a message on the A protocol using the resource URI''"
proof -
  let ?found = "Some [example_resource (str ''chat+a:///x'')]"
  let ?hs = "[(str ''tools/list'', example_handler (ToolsResult [example_tool]))]"
  have t: "resourceTemplate (example_bus_with found hs) = example_template" for found hs
    by (simp add: example_bus_with_def example_bus_def MCPMessageBus_new_def)
  have 1: "(map_of (requestHandlers (example_bus_with ?found [])) (example_pz ListToolsRequestSchema) = None \<and> [] = ([] :: tool list))
         \<or> (\<exists>h. map_of (requestHandlers (example_bus_with ?found [])) (example_pz ListToolsRequestSchema) = Some h
                \<and> h ListToolsRequest () = Inr (ToolsResult []))"
    by (simp add: example_handlers)
  have 2: "(map_of (requestHandlers (example_bus_with ?found ?hs)) (example_pz ListToolsRequestSchema) = None \<and> [example_tool] = [])
         \<or> (\<exists>h. map_of (requestHandlers (example_bus_with ?found ?hs)) (example_pz ListToolsRequestSchema) = Some h
                \<and> h ListToolsRequest () = Inr (ToolsResult [example_tool]))"
    by (simp add: example_handlers example_handler_def)
  have a: "snd (list_tools_handler example_pz (example_bus_with ?found []) ListToolsRequest ()) =
     Inr (ToolsResult [chat_tool example_template (str ''chat+a'')])"
    using list_tools_handler_tools
            [of "example_bus_with ?found []" "[str ''chat+a'']" example_pz "[]" ListToolsRequest "()",
             OF example_protocols 1]
    by (simp add: t)
  have b: "snd (list_tools_handler example_pz (example_bus_with ?found ?hs) ListToolsRequest ()) =
     Inr (ToolsResult [example_tool, chat_tool example_template (str ''chat+a'')])"
    using list_tools_handler_tools
            [of "example_bus_with ?found ?hs" "[str ''chat+a'']" example_pz "[example_tool]"
                ListToolsRequest "()",
             OF example_protocols 2]
    by (simp add: t)
  have c: "tool_name (chat_tool example_template (str ''chat+a'')) = str ''chat+a''
     \<and> tool_description (chat_tool example_template (str ''chat+a'')) =
       str ''Send a message on the A protocol using the resource URI''"
    using list_tools_handler_tools
            [of "example_bus_with ?found []" "[str ''chat+a'']" example_pz "[]" ListToolsRequest "()",
             OF example_protocols 1]
    by (simp add: t example_template_def) (simp add: str_def)
  from a b c show ?thesis by blast
qed

theorem read_resource_handler_dispatch_witness:
  "snd (read_resource_handler example_pz example_stringify (example_bus_with None [])
          (str ''chat+a:///x'') ()) =
     Inr (ContentsResult
            [\<lparr>contents_uri = str ''chat+a:///x'', mimeType = str ''application/json'',
              contents_text =
                example_stringify
                  \<lparr>payload_uri = str ''chat+a:///x'',
                   payload_messages = [example_message (str ''m1''), example_message (str ''m2'')]\<rparr> 2\<rparr>])
   \<and> snd (read_resource_handler example_pz example_stringify (example_bus_with None [])
          (str ''chat+a:///none'') ()) = Inr (ContentsResult [])
   \<and> snd (read_resource_handler example_pz example_stringify
          (example_bus_with None [(str ''resources/read'', example_handler (ContentsResult []))])
          (str ''chat+a:///none'') ()) = Inr (ContentsResult [])
   \<and> delegations (fst (read_resource_handler example_pz example_stringify
          (example_bus_with None [(str ''resources/read'', example_handler (ContentsResult []))])
          (str ''chat+a:///none'') ())) =
       [(str ''resources/read'', ReadResourceRequest (str ''chat+a:///none''))]"
proof -
  have r1: "readMessages (example_bus_with None hs) (str ''chat+a:///x'') =
      Inr (Some [example_message (str ''m1''), example_message (str ''m2'')])" for hs
    by (simp add: example_bus_with_def example_bus_def MCPMessageBus_new_def)
  have r2: "readMessages (example_bus_with None hs) (str ''chat+a:///none'') = Inr None" for hs
    by (simp add: example_bus_with_def example_bus_def MCPMessageBus_new_def str_def)
  have a: "snd (read_resource_handler example_pz example_stringify (example_bus_with None [])
          (str ''chat+a:///x'') ()) =
     Inr (ContentsResult
            [\<lparr>contents_uri = str ''chat+a:///x'', mimeType = str ''application/json'',
              contents_text =
                example_stringify
                  \<lparr>payload_uri = str ''chat+a:///x'',
                   payload_messages = [example_message (str ''m1''), example_message (str ''m2'')]\<rparr> 2\<rparr>])"
    using read_resource_handler_dispatch
            [of "example_bus_with None []" "str ''chat+a:///x''"
                "[example_message (str ''m1''), example_message (str ''m2'')]"
                example_pz example_stringify "()"] r1
    by blast
  have b: "snd (read_resource_handler example_pz example_stringify (example_bus_with None [])
          (str ''chat+a:///none'') ()) = Inr (ContentsResult [])"
    using read_resource_handler_dispatch
            [of "example_bus_with None []" "str ''chat+a:///none''" "[]"
                example_pz example_stringify "()"] r2
    by (simp add: example_handlers)
  have c: "snd (read_resource_handler example_pz example_stringify
          (example_bus_with None [(str ''resources/read'', example_handler (ContentsResult []))])
          (str ''chat+a:///none'') ()) = Inr (ContentsResult [])
   \<and> delegations (fst (read_resource_handler example_pz example_stringify
          (example_bus_with None [(str ''resources/read'', example_handler (ContentsResult []))])
          (str ''chat+a:///none'') ())) =
       [(str ''resources/read'', ReadResourceRequest (str ''chat+a:///none''))]"
    using read_resource_handler_dispatch
            [of "example_bus_with None [(str ''resources/read'', example_handler (ContentsResult []))]"
                "str ''chat+a:///none''" "[]" example_pz example_stringify "()"] r2
    by (simp add: example_handlers example_handler_def)
  from a b c show ?thesis by blast
qed

end
